theory Spec2Isabelle
  imports Main "HOL-Library.Sublist"
begin

section \<open>Python values, exceptions and strings\<close>

text \<open>
  The three AWS Lambda modules of the repository are embedded function by function.
  A Python \<open>str\<close> is represented by the bytes of its UTF-8 encoding, one \<open>char\<close> per
  byte: concatenation, equality, \<open>startswith\<close> and the \<open>in\<close> test with an ASCII
  needle are the same on the encoding as on the code points. An exception is a value
  \<open>Exc cls msg\<close>, where \<open>msg\<close> is what \<open>str(exc)\<close> gives; a function that can raise
  returns \<open>exc + 'a\<close>.
\<close>

datatype exc = Exc (exc_class: string) (exc_str: string)

text \<open>
  The values \<open>json.loads\<close> produces (a number with a fraction is not modelled). A dict is
  an association list; \<open>dict_get\<close> is \<open>d.get(key, default)\<close>.
\<close>

datatype json =
    JNull
  | JBool bool
  | JInt int
  | JStr string
  | JList "json list"
  | JObj "(string \<times> json) list"

definition dict_get :: "(string \<times> json) list \<Rightarrow> string \<Rightarrow> json \<Rightarrow> json" where
  "dict_get d k dflt = (case map_of d k of None \<Rightarrow> dflt | Some v \<Rightarrow> v)"

fun truthy :: "json \<Rightarrow> bool" where
  "truthy JNull = False"
| "truthy (JBool b) = b"
| "truthy (JInt n) = (n \<noteq> 0)"
| "truthy (JStr s) = (s \<noteq> [])"
| "truthy (JList xs) = (xs \<noteq> [])"
| "truthy (JObj kvs) = (kvs \<noteq> [])"

text \<open>
  The class name of a value and the messages of the exceptions that name it.
\<close>

definition py_type_name :: "json \<Rightarrow> string" where
  "py_type_name v =
     (case v of
        JNull \<Rightarrow> ''NoneType''
      | JBool b \<Rightarrow> ''bool''
      | JInt n \<Rightarrow> ''int''
      | JStr s \<Rightarrow> ''str''
      | JList xs \<Rightarrow> ''list''
      | JObj kvs \<Rightarrow> ''dict'')"

definition squote :: "string \<Rightarrow> string" where
  "squote s = CHR 0x27 # s @ [CHR 0x27]"

definition no_attribute :: "string \<Rightarrow> string \<Rightarrow> exc" where
  "no_attribute type_name attr =
     Exc ''AttributeError'' (squote type_name @ '' object has no attribute '' @ squote attr)"

text \<open>
  Library functions whose result on an arbitrary input is not part of this repository
  are parameters of the model: parsing a request body, base64 decoding, decoding UTF-8,
  the text a serialiser prints, \<open>int\<close> of a string and \<open>str\<close> of a list or dict.
\<close>

record pylib =
  json_loads :: "string \<Rightarrow> exc + json"
  b64decode :: "string \<Rightarrow> exc + string"
  decode_utf8 :: "string \<Rightarrow> exc + string"
  render_json :: "json \<Rightarrow> string"
  render_model :: "json \<Rightarrow> string"
  int_of_str :: "string \<Rightarrow> exc + int"
  repr_of :: "json \<Rightarrow> string"

text \<open>
  A JSON text that the program itself produces is kept together with the value it
  denotes: \<open>json.loads\<close> of such a text returns that value.
\<close>

record json_text =
  rendered :: string
  denoted :: json

definition json_dumps :: "pylib \<Rightarrow> json \<Rightarrow> json_text" where
  "json_dumps lib v = \<lparr>rendered = render_json lib v, denoted = v\<rparr>"

definition loads_own :: "json_text \<Rightarrow> exc + json" where
  "loads_own t = Inr (denoted t)"

subsection \<open>\<open>str\<close> and \<open>int\<close>\<close>

definition digit_char :: "nat \<Rightarrow> char" where
  "digit_char d = char_of (48 + d)"

fun str_of_nat :: "nat \<Rightarrow> string" where
  "str_of_nat n = (if n < 10 then [digit_char n] else str_of_nat (n div 10) @ [digit_char (n mod 10)])"

declare str_of_nat.simps [simp del]

definition str_of_int :: "int \<Rightarrow> string" where
  "str_of_int i = (if i < 0 then CHR ''-'' # str_of_nat (nat (- i)) else str_of_nat (nat i))"

definition py_str :: "pylib \<Rightarrow> json \<Rightarrow> string" where
  "py_str lib v =
     (case v of
        JStr s \<Rightarrow> s
      | JNull \<Rightarrow> ''None''
      | JBool b \<Rightarrow> (if b then ''True'' else ''False'')
      | JInt n \<Rightarrow> str_of_int n
      | _ \<Rightarrow> repr_of lib v)"

definition py_str_opt :: "string option \<Rightarrow> string" where
  "py_str_opt v = (case v of None \<Rightarrow> ''None'' | Some s \<Rightarrow> s)"

definition py_int :: "pylib \<Rightarrow> json \<Rightarrow> exc + int" where
  "py_int lib v =
     (case v of
        JInt n \<Rightarrow> Inr n
      | JBool b \<Rightarrow> Inr (if b then 1 else 0)
      | JStr s \<Rightarrow> int_of_str lib s
      | _ \<Rightarrow> Inl (Exc ''TypeError''
                  (''int() argument must be a string, a bytes-like object or a real number, not ''
                   @ squote (py_type_name v))))"

subsection \<open>\<open>in\<close>, \<open>lower\<close>, \<open>strip\<close>\<close>

fun str_contains :: "string \<Rightarrow> string \<Rightarrow> bool" where
  "str_contains needle [] = (needle = [])"
| "str_contains needle (c # cs) = (prefix needle (c # cs) \<or> str_contains needle cs)"

text \<open>
  \<open>lower\<close> maps the ASCII capitals. Python lowercases letters beyond ASCII as well; the
  model leaves their bytes as they are, which does not change whether the result starts
  with an ASCII word, the only use the program makes of it.
\<close>

definition lower_char :: "char \<Rightarrow> char" where
  "lower_char c =
     (let n = (of_char c :: nat) in if 65 \<le> n \<and> n \<le> 90 then char_of (n + 32) else c)"

definition py_lower :: "string \<Rightarrow> string" where
  "py_lower s = map lower_char s"

text \<open>The characters \<open>str.isspace\<close> accepts, in UTF-8.\<close>

definition whitespace :: "string list" where
  "whitespace =
     map (\<lambda>c. [c]) [CHR 0x09, CHR 0x0A, CHR 0x0B, CHR 0x0C, CHR 0x0D,
                     CHR 0x1C, CHR 0x1D, CHR 0x1E, CHR 0x1F, CHR 0x20]
     @ [[CHR 0xC2, CHR 0x85], [CHR 0xC2, CHR 0xA0], [CHR 0xE1, CHR 0x9A, CHR 0x80]]
     @ map (\<lambda>c. [CHR 0xE2, CHR 0x80, c])
         [CHR 0x80, CHR 0x81, CHR 0x82, CHR 0x83, CHR 0x84, CHR 0x85, CHR 0x86, CHR 0x87,
          CHR 0x88, CHR 0x89, CHR 0x8A, CHR 0xA8, CHR 0xA9, CHR 0xAF]
     @ [[CHR 0xE2, CHR 0x81, CHR 0x9F], [CHR 0xE3, CHR 0x80, CHR 0x80]]"

function drop_leading :: "string list \<Rightarrow> string \<Rightarrow> string" where
  "drop_leading ws s =
     (case find (\<lambda>w. w \<noteq> [] \<and> prefix w s) ws of
        None \<Rightarrow> s
      | Some w \<Rightarrow> drop_leading ws (drop (length w) s))"
  by pat_completeness auto
termination
proof (relation "measure (\<lambda>(ws, s). length s)")
  show "wf (measure (\<lambda>(ws, s). length s))" by simp
next
  fix ws :: "string list" and s w :: string
  assume "find (\<lambda>w. w \<noteq> [] \<and> prefix w s) ws = Some w"
  then have "w \<noteq> []" and "prefix w s"
    by (auto simp: find_Some_iff)
  then have "s \<noteq> []" by auto
  with \<open>w \<noteq> []\<close> show "((ws, drop (length w) s), (ws, s)) \<in> measure (\<lambda>(ws, s). length s)"
    by simp
qed

declare drop_leading.simps [simp del]

definition py_strip :: "string \<Rightarrow> string" where
  "py_strip s = rev (drop_leading (map rev whitespace) (rev (drop_leading whitespace s)))"

subsection \<open>\<open>str.format\<close> with keyword arguments\<close>

text \<open>
  The template is read from left to right: \<open>{{\<close> and \<open>}}\<close> are literal braces,
  \<open>{name}\<close> is replaced by the keyword argument of that name, a name that was not passed
  raises KeyError, a brace without its partner raises ValueError. The first error met
  is the one raised. Replacement fields with a conversion, a format specification or an
  index do not occur in the templates of this program and are not modelled: such a field
  is looked up as a name.
\<close>

definition then_prepend :: "string \<Rightarrow> exc + string \<Rightarrow> exc + string" where
  "then_prepend v r = (case r of Inl e \<Rightarrow> Inl e | Inr s \<Rightarrow> Inr (v @ s))"

fun fmt :: "(string \<times> string) list \<Rightarrow> string option \<Rightarrow> string \<Rightarrow> exc + string" where
  "fmt kw None [] = Inr []"
| "fmt kw (Some name) [] = Inl (Exc ''ValueError'' ''expected '}' before end of string'')"
| "fmt kw None (c # cs) =
     (if c = CHR ''{'' then
        (case cs of
           [] \<Rightarrow> Inl (Exc ''ValueError'' ''Single '{' encountered in format string'')
         | d # ds \<Rightarrow> if d = CHR ''{'' then then_prepend ''{'' (fmt kw None ds)
                     else fmt kw (Some []) cs)
      else if c = CHR ''}'' then
        (case cs of
           [] \<Rightarrow> Inl (Exc ''ValueError'' ''Single '}' encountered in format string'')
         | d # ds \<Rightarrow> if d = CHR ''}'' then then_prepend ''}'' (fmt kw None ds)
                     else Inl (Exc ''ValueError'' ''Single '}' encountered in format string''))
      else then_prepend [c] (fmt kw None cs))"
| "fmt kw (Some name) (c # cs) =
     (if c = CHR ''}'' then
        (case map_of kw name of
           None \<Rightarrow> Inl (Exc ''KeyError'' (squote name))
         | Some v \<Rightarrow> then_prepend v (fmt kw None cs))
      else fmt kw (Some (name @ [c])) cs)"

definition py_format :: "string \<Rightarrow> (string \<times> string) list \<Rightarrow> exc + string" where
  "py_format template kw = fmt kw None template"

definition nl :: string where
  "nl = [CHR 0x0A]"

definition backtick :: string where
  "backtick = [CHR 0x60]"

definition dquote :: string where
  "dquote = [CHR 0x22]"

definition u_ae :: string where
  "u_ae = [CHR 0xC3, CHR 0xA4]"

definition u_oe :: string where
  "u_oe = [CHR 0xC3, CHR 0xB6]"

definition u_ue :: string where
  "u_ue = [CHR 0xC3, CHR 0xBC]"

definition u_sz :: string where
  "u_sz = [CHR 0xC3, CHR 0x9F]"

definition u_rarr :: string where
  "u_rarr = [CHR 0xE2, CHR 0x86, CHR 0x92]"

definition u_ndash :: string where
  "u_ndash = [CHR 0xE2, CHR 0x80, CHR 0x93]"

definition u_nnbsp :: string where
  "u_nnbsp = [CHR 0xE2, CHR 0x80, CHR 0xAF]"

definition u_hellip :: string where
  "u_hellip = [CHR 0xE2, CHR 0x80, CHR 0xA6]"

definition u_bdquo :: string where
  "u_bdquo = [CHR 0xE2, CHR 0x80, CHR 0x9E]"

definition u_ldquo :: string where
  "u_ldquo = [CHR 0xE2, CHR 0x80, CHR 0x9C]"

definition RETRIEVER_INSTRUCTIONS :: string where
  "RETRIEVER_INSTRUCTIONS = concat
    [nl,
     ''Ich greife direkt auf die pgvector-Datenbank zu, um relevante Chunks zum Thema **{query}** zu finden.'', nl,
     ''Nutze dazu '', backtick, ''search'', backtick, '', '', backtick, ''think'', backtick, '', '', backtick, ''analyze'', backtick, ''. Gib deine Antwort exakt so zur'', u_ue, ''ck:'', nl,
     nl,
     ''Zusammenfassung:'', nl,
     ''- <Bullet 1>'', nl,
     ''- '', u_hellip, '' (max. 10 Bullets)'', nl]"

definition BASE_GENERATOR_INSTRUCTIONS :: string where
  "BASE_GENERATOR_INSTRUCTIONS = concat
    [nl,
     ''Du erstellst Frage-Antort-Paare f'', u_ue, ''r eine Lernplattform. Formuliere s'', u_ae, ''mtliche Fragen, Antworten und L'', u_oe, ''sungswege etc. ausschlie'', u_sz, ''lich auf Deutsch.'', nl,
     nl,
     ''Erstelle {num} Aufgaben des Typs **{q_type}** im Schwierigkeitsgrad **{difficulty}** f'', u_ue, ''r die Zielgruppe **{audience}**.'', nl,
     ''Nutze folgenden Kontext:'', nl,
     ''{context}'', nl]"

definition COMPREHENSION_QA_GENERATOR_INSTRUCTIONS :: string where
  "COMPREHENSION_QA_GENERATOR_INSTRUCTIONS = concat
    [''Deine Aufgabe ist es, basierend auf deinem Wissen qualitativ hochwertige Verst'', u_ae, ''ndnisfragen samt zugeh'', u_oe, ''riger Antworten ('', u_rarr, '' Frage-Antwort-Paare) zu dem angegebenen Thema bzw. Themenbereich zu erstellen.'', nl,
     nl,
     ''Die Fragen sollen:'', nl,
     ''    - inhaltlich vielf'', u_ae, ''ltig sein und unterschiedliche Aspekte des Themas / Themenbereichs abdecken'', nl,
     ''    - idealerweise verschiedene Fragetechniken abdecken (z.'', u_nnbsp, ''B. Multiple-Choice, L'', u_ue, ''ckentext)'', nl,
     ''    - die '', u_ue, ''bergebenen Anforderungen bez'', u_ue, ''glich Schwierigkeisgrad, Anzahl der Fragen, Thema, Fragentyp, Zielgruppe und Keywords ber'', u_ue, ''cksichtigen '', nl,
     nl,
     ''Verwende ausschlie'', u_sz, ''lich dein eigenes Wissen zur Erstellung der Fragen.'', nl,
     nl,
     ''Gib nur die generierten Frage-Antwort-Paare zusammen mit dem Fragetyp und gegebenenfalls den Multiple-Choice-Optionen aus '', u_ndash, '' ohne zus'', u_ae, ''tzlichen Text.'', nl,
     nl,
     ''Formuliere die Frage-Antwort-Paare auf Deutsch.'', nl]"

definition CALCULATION_QA_GENERATOR_INSTRUCTIONS :: string where
  "CALCULATION_QA_GENERATOR_INSTRUCTIONS = concat
    [''Deine Aufgabe ist es, basierend auf deinem Wissen qualitativ hochwertige Rechenfragen samt zugeh'', u_oe, ''riger L'', u_oe, ''sungen ('', u_rarr, '' Frage-Antwort-Paare) zu dem angegebenen Thema bzw. Themenbereich zu erstellen.'', nl,
     nl,
     ''Die Fragen sollen:'', nl,
     ''    - inhaltlich vielf'', u_ae, ''ltig sein und unterschiedliche Aspekte des Themas / Themenbereichs abdecken'', nl,
     ''    - die '', u_ue, ''bergebenen Anforderungen bez'', u_ue, ''glich Schwierigkeisgrad, Anzahl der Fragen, Thema, Fragentyp, Zielgruppe und Keywords ber'', u_ue, ''cksichtigen '', nl,
     nl,
     ''Verwende ausschlie'', u_sz, ''lich dein eigenes Wissen zur Erstellung der Fragen.'', nl,
     nl,
     ''Gib nur die generierten Frage-Antwort-Paare zusammen mit dem Fragetyp aus '', u_ndash, '' ohne zus'', u_ae, ''tzlichen Text.'', nl,
     nl,
     ''Formuliere die Frage-Antwort-Paare auf Deutsch.'', nl]"

definition QUESTION_REVIEWER_INSTRUCTIONS :: string where
  "QUESTION_REVIEWER_INSTRUCTIONS = concat
    [''Deine Aufgabe ist es, die Qualit'', u_ae, ''t von Fragen innerhalb gegebener Frage-Antwort-Paare zu pr'', u_ue, ''fen und zu bewerten.'', nl,
     nl,
     ''Ber'', u_ue, ''cksichtige dabei unter anderem die folgenden Qualit'', u_ae, ''tskriterien. Wenn du ein Kriterium nicht eindeutig anwenden kannst, orientiere dich an deinem besten Urteilsverm'', u_oe, ''gen.'', nl,
     ''    - Klarheit & Eindeutigkeit: Ist die Frage eindeutig, verst'', u_ae, ''ndlich und pr'', u_ae, ''zise formuliert und l'', u_ae, ''sst keine Mehrdeutigkeit zu?'', nl,
     ''    - Pr'', u_ae, ''zision & Umfang: Ist die Frage weder zu allgemein noch zu speziell?'', nl,
     ''    - Zielorienterung: Ist die Frage klar an einem Lernziel ausgerichtet?'', nl,
     ''    - Kognitive Anforderung (Taxonomiestufe): Erfordert die Frage ein angemessenes Niveau an Denken gem'', u_ae, u_sz, '' Bloom (z.'', u_nnbsp, ''B. Verstehen, Anwenden, Analysieren)? Ist die Frage anspruchsvoll und erfordert ein solides Verst'', u_ae, ''ndnis des Themas?'', nl,
     ''    - Aktivierung / Denkf'', u_oe, ''rderung: F'', u_oe, ''rdert die Frage aktives Nachdenken, Transfer oder Probleml'', u_oe, ''sen?         '', nl,
     ''    - Relevanz & Kontext: Passt die Frage zur Dom'', u_ae, ''ne oder zum thematischen Kontext? Stimmt die Frage mit deinem Wissen '', u_ue, ''berein?'', nl,
     ''    - Antwortbarkeit: Basiert die Frage auf deinem bekannten Wissen bzw. l'', u_ae, ''sst sich die Frage mit deinem bekannten Wissen beantworten?'', nl,
     ''    - Schwierigkeitsgrad: Ist die Frage vom Niveau / Schwierigkeitsgrad her f'', u_ue, ''r die Zielgruppe angemessen/geeignet?'', nl,
     ''    - Tiefe der Frage: Geht die Frage '', u_ue, ''ber reine Faktenabfrage hinaus (z.'', u_nnbsp, ''B. '', u_bdquo, ''Warum'', u_ldquo, '' / '', u_bdquo, ''Wie'', u_ldquo, '')?'', nl,
     ''    - Nicht-Redundanz: Vermeidet die Frage Wiederholungen oder Variationen von Inhalten anderer Fragen?'', nl,
     ''    - Informationsdichte: Liefert die Antwort substanzielle Informationen oder ist sie trivial/flach?'', nl,
     ''    - Kontextualisierung: Ist die Frage eingebettet in ein sinnvolles Szenario oder Problemfeld?'', nl,
     ''    - Vernetztes Denken / Zusammenhangserkennung: Zielt die Frage darauf ab, Zusammenh'', u_ae, ''nge zwischen Konzepten / Themen herzustellen / zu erkennen oder Wissen zu vernetzen?      '', nl,
     ''    - Antortorientierung: Erm'', u_oe, ''glicht oder provoziert die Frage eine substanzielle und informative Antwort?'', nl,
     ''    - F'', u_ue, ''hrt die Frage zu einer guten Antwort?'', nl,
     nl,
     ''Falls eine Frage die Qualit'', u_ae, ''tskriterien nicht erf'', u_ue, ''llt, formuliere gezieltes Feedback mit konkreten Verbesserungsvorschl'', u_ae, ''gen.'', nl,
     ''Wenn du mit der Qualit'', u_ae, ''t der Fragen zufrieden bist und keine Verbesserungsvorschl'', u_ae, ''ge hast, gib eindeutig'', u_nnbsp, u_bdquo, ''Review OK'', u_ldquo, u_nnbsp, ''als Feedback zur'', u_ue, ''ck.'', nl,
     nl,
     ''Gib in deiner R'', u_ue, ''ckmeldung ausschlie'', u_sz, ''lich Feedback zu den Fragen oder '', dquote, ''Review OK'', dquote, '' zur'', u_ue, ''ck '', u_ndash, '' ohne zus'', u_ae, ''tzlichen Text.'', nl,
     nl,
     ''Greife auf dein eigenes Wissen zur Bewertung zur'', u_ue, ''ck.'', nl,
     nl,
     ''Formuliere dein Feedback stets auf Deutsch.'', nl]"

section \<open>Frage\_Generierung\_Lambda: the question generation workflow\<close>

datatype QuestionType = TEXT | MULTIPLE_CHOICE

record Question =
  question_text :: string
  question_type :: QuestionType
  multiple_choice_options :: "string list option"
  correct_answer :: string

record QuestionResponse =
  questions :: "Question list"

definition QuestionType_value :: "QuestionType \<Rightarrow> string" where
  "QuestionType_value t = (case t of TEXT \<Rightarrow> ''text'' | MULTIPLE_CHOICE \<Rightarrow> ''multiple_choice'')"

definition Question_json :: "Question \<Rightarrow> json" where
  "Question_json q =
     JObj [(''question_text'', JStr (question_text q)),
           (''question_type'', JStr (QuestionType_value (question_type q))),
           (''multiple_choice_options'',
              (case multiple_choice_options q of None \<Rightarrow> JNull | Some os \<Rightarrow> JList (map JStr os))),
           (''correct_answer'', JStr (correct_answer q))]"

definition QuestionResponse_json :: "QuestionResponse \<Rightarrow> json" where
  "QuestionResponse_json r = JObj [(''questions'', JList (map Question_json (questions r)))]"

definition model_dump_json :: "pylib \<Rightarrow> QuestionResponse \<Rightarrow> json_text" where
  "model_dump_json lib r =
     \<lparr>rendered = render_model lib (QuestionResponse_json r), denoted = QuestionResponse_json r\<rparr>"

subsection \<open>Agents and the reasoning oracle\<close>

text \<open>
  The four agents are module-level objects; \<open>instructions\<close> is the text each was built
  with (\<open>build_agent\<close> dedents it). \<open>BASE_GENERATOR_INSTRUCTIONS\<close> is defined by the module
  and given to no agent.
\<close>

datatype agent =
    KNOWLEDGE_RETRIEVER
  | COMPREHENSION_QA_GENERATOR
  | CALCULATION_QA_GENERATOR
  | QUESTION_REVIEWER

fun instructions :: "agent \<Rightarrow> string" where
  "instructions KNOWLEDGE_RETRIEVER = RETRIEVER_INSTRUCTIONS"
| "instructions COMPREHENSION_QA_GENERATOR = COMPREHENSION_QA_GENERATOR_INSTRUCTIONS"
| "instructions CALCULATION_QA_GENERATOR = CALCULATION_QA_GENERATOR_INSTRUCTIONS"
| "instructions QUESTION_REVIEWER = QUESTION_REVIEWER_INSTRUCTIONS"

text \<open>
  What \<open>agent.run(prompt).content\<close> holds. An agent with a \<open>response_model\<close> yields an
  instance of the model, or the raw text or nothing when the answer could not be parsed
  (the workflow tests for this with \<open>isinstance\<close>); an agent without one yields text or
  \<open>None\<close>.
\<close>

datatype 'm content = Model 'm | Text string | NoContent

text \<open>
  The language model and the vector store behind the agents are opaque: a \<open>world\<close>
  gives the outcome of each call, which may be an exception. The outcome may depend on
  how many agent calls the request has made before, so the same prompt can be answered
  differently each time. Every call is logged in a trace, with its prompt and outcome.
\<close>

record world =
  retriever_reply :: "nat \<Rightarrow> string \<Rightarrow> exc + string option"
  generator_reply :: "agent \<Rightarrow> nat \<Rightarrow> string \<Rightarrow> exc + QuestionResponse content"
  reviewer_reply :: "nat \<Rightarrow> string \<Rightarrow> exc + string option"

datatype outcome =
    Retrieved "string option"
  | Generated "QuestionResponse content"
  | Reviewed "string option"
  | Raised exc

datatype call = Call (callee: agent) (call_prompt: string) (call_outcome: outcome)

type_synonym trace = "call list"

definition retriever_run :: "world \<Rightarrow> string \<Rightarrow> trace \<Rightarrow> (exc + string option) \<times> trace" where
  "retriever_run w p tr =
     (case retriever_reply w (length tr) p of
        Inl e \<Rightarrow> (Inl e, tr @ [Call KNOWLEDGE_RETRIEVER p (Raised e)])
      | Inr c \<Rightarrow> (Inr c, tr @ [Call KNOWLEDGE_RETRIEVER p (Retrieved c)]))"

definition generator_run ::
  "world \<Rightarrow> agent \<Rightarrow> string \<Rightarrow> trace \<Rightarrow> (exc + QuestionResponse content) \<times> trace" where
  "generator_run w g p tr =
     (case generator_reply w g (length tr) p of
        Inl e \<Rightarrow> (Inl e, tr @ [Call g p (Raised e)])
      | Inr c \<Rightarrow> (Inr c, tr @ [Call g p (Generated c)]))"

definition reviewer_run :: "world \<Rightarrow> string \<Rightarrow> trace \<Rightarrow> (exc + string option) \<times> trace" where
  "reviewer_run w p tr =
     (case reviewer_reply w (length tr) p of
        Inl e \<Rightarrow> (Inl e, tr @ [Call QUESTION_REVIEWER p (Raised e)])
      | Inr c \<Rightarrow> (Inr c, tr @ [Call QUESTION_REVIEWER p (Reviewed c)]))"

subsection \<open>QAWorkflow\<close>

definition MAX_ROUNDS :: nat where
  "MAX_ROUNDS = 1"

record QAWorkflow =
  generator :: agent
  q_type_label :: string

text \<open>\<open>QAWorkflow.__init__\<close>: a \<open>question_type\<close> that is not a string has no \<open>lower\<close>.\<close>

definition QAWorkflow_init :: "json \<Rightarrow> exc + QAWorkflow" where
  "QAWorkflow_init question_type' =
     (case question_type' of
        JStr s \<Rightarrow>
          (let qt_lower = py_lower s
           in Inr \<lparr>generator = (if prefix ''ver'' qt_lower then COMPREHENSION_QA_GENERATOR
                                else CALCULATION_QA_GENERATOR),
                   q_type_label = (if prefix ''ver'' qt_lower then ''Verst'' @ u_ae @ ''ndnisfrage''
                                   else ''Rechenfrage'')\<rparr>)
      | _ \<Rightarrow> Inl (no_attribute (py_type_name question_type') ''lower''))"

text \<open>
  One pass of \<open>for _ in range(self.MAX_ROUNDS)\<close> per \<open>Suc\<close>; \<open>feedback\<close> and
  \<open>qa_pairs_json\<close> are the loop's variables, \<open>qa_pairs_json\<close> being \<open>None\<close> as long as
  it is unassigned. With no round left the statement after the loop returns.
\<close>

fun run_rounds ::
  "pylib \<Rightarrow> world \<Rightarrow> QAWorkflow \<Rightarrow> int \<Rightarrow> json \<Rightarrow> json \<Rightarrow> string option \<Rightarrow>
   nat \<Rightarrow> string option \<Rightarrow> json_text option \<Rightarrow> trace \<Rightarrow> (exc + json) \<times> trace" where
  "run_rounds lib w self num_qas difficulty audience context 0 feedback qa_pairs_json tr =
     (case qa_pairs_json of
        None \<Rightarrow> (Inl (Exc ''UnboundLocalError''
                    ''cannot access local variable 'qa_pairs_json' where it is not associated with a value''), tr)
      | Some t \<Rightarrow> (loads_own t, tr))"
| "run_rounds lib w self num_qas difficulty audience context (Suc k) feedback qa_pairs_json tr =
     (case py_format (instructions (generator self))
             [(''num'', str_of_int num_qas),
              (''q_type'', q_type_label self),
              (''difficulty'', py_str lib difficulty),
              (''audience'', py_str lib audience),
              (''context'', py_str_opt context)] of
        Inl e \<Rightarrow> (Inl e, tr)
      | Inr formatted \<Rightarrow>
          (let gen_prompt =
                 (case feedback of
                    None \<Rightarrow> formatted
                  | Some fb \<Rightarrow> if fb \<noteq> [] then formatted @ nl @ ''Vorheriges Feedback:'' @ nl @ fb @ nl
                               else formatted)
           in case generator_run w (generator self) gen_prompt tr of
                (Inl e, tr1) \<Rightarrow> (Inl e, tr1)
              | (Inr qa_pairs_resp, tr1) \<Rightarrow>
                  (let qa_pairs_json =
                         (case qa_pairs_resp of
                            Model m \<Rightarrow> model_dump_json lib m
                          | Text s \<Rightarrow> json_dumps lib (JStr s)
                          | NoContent \<Rightarrow> json_dumps lib JNull);
                       review_prompt =
                         ''Bewerte folgende Frage-Antwort-Paare:'' @ nl @ rendered qa_pairs_json
                         @ nl @ ''Schwierigkeitsgrad: '' @ py_str lib difficulty
                         @ nl @ ''Zielgruppe: '' @ py_str lib audience
                   in case reviewer_run w review_prompt tr1 of
                        (Inl e, tr2) \<Rightarrow> (Inl e, tr2)
                      | (Inr None, tr2) \<Rightarrow>
                          (Inl (Exc ''TypeError'' ''argument of type 'NoneType' is not iterable''), tr2)
                      | (Inr (Some fb), tr2) \<Rightarrow>
                          if str_contains ''Review OK'' fb then (loads_own qa_pairs_json, tr2)
                          else run_rounds lib w self num_qas difficulty audience context
                                 k (Some fb) (Some qa_pairs_json) tr2)))"

definition QAWorkflow_run ::
  "pylib \<Rightarrow> world \<Rightarrow> QAWorkflow \<Rightarrow> json \<Rightarrow> json \<Rightarrow> int \<Rightarrow> json \<Rightarrow> json \<Rightarrow> trace \<Rightarrow>
   (exc + json) \<times> trace" where
  "QAWorkflow_run lib w self subjects keywords num_qas difficulty audience tr =
     (let search_query = py_strip (py_str lib subjects @ '' '' @ py_str lib keywords)
      in case py_format (instructions KNOWLEDGE_RETRIEVER) [(''query'', search_query)] of
           Inl e \<Rightarrow> (Inl e, tr)
         | Inr retriever_prompt \<Rightarrow>
             (case retriever_run w retriever_prompt tr of
                (Inl e, tr1) \<Rightarrow> (Inl e, tr1)
              | (Inr context, tr1) \<Rightarrow>
                  run_rounds lib w self num_qas difficulty audience context
                    MAX_ROUNDS None None tr1))"

subsection \<open>Request mapping and the Lambda entry point\<close>

text \<open>\<open>handle_request\<close>: \<open>payload.get\<close> needs a dict.\<close>

definition handle_request :: "pylib \<Rightarrow> world \<Rightarrow> json \<Rightarrow> trace \<Rightarrow> (exc + json) \<times> trace" where
  "handle_request lib w payload tr =
     (case payload of
        JObj d \<Rightarrow>
          (let question_type' = dict_get d ''fragetyp'' (JStr (''Verst'' @ u_ae @ ''ndnisfragen''));
               subjects = dict_get d ''thema'' (JStr '''');
               keywords = dict_get d ''keywords'' (JStr '''')
           in case py_int lib (dict_get d ''anzahl_fragen'' (JInt 3)) of
                Inl e \<Rightarrow> (Inl e, tr)
              | Inr num_qas \<Rightarrow>
                  (let difficulty = dict_get d ''schwierigkeitsgrad'' (JStr ''mittel'');
                       audience = dict_get d ''zielgruppe'' (JStr '''')
                   in case QAWorkflow_init question_type' of
                        Inl e \<Rightarrow> (Inl e, tr)
                      | Inr workflow \<Rightarrow>
                          (case QAWorkflow_run lib w workflow subjects keywords num_qas difficulty audience tr of
                             (Inl e, tr1) \<Rightarrow> (Inl e, tr1)
                           | (Inr questions', tr1) \<Rightarrow> (Inr (JObj [(''questions'', questions')]), tr1))))
      | _ \<Rightarrow> (Inl (no_attribute (py_type_name payload) ''get''), tr))"

text \<open>
  An API Gateway response. The body is a JSON text, represented by the value it
  serialises.
\<close>

record response =
  statusCode :: int
  headers :: "(string \<times> string) list"
  body :: json

text \<open>
  The event is a dict of JSON values. The whole of \<open>lambda_handler\<close> is inside
  \<open>try\<close>, so the handler itself never raises.
\<close>

definition generation_body :: "pylib \<Rightarrow> (string \<rightharpoonup> json) \<Rightarrow> exc + string" where
  "generation_body lib event =
     (let b = (case event ''body'' of None \<Rightarrow> JNull | Some v \<Rightarrow> v);
          body' = (if truthy b then b else JStr ''{}'')
      in if truthy (case event ''isBase64Encoded'' of None \<Rightarrow> JNull | Some v \<Rightarrow> v) then
           (case body' of
              JStr s \<Rightarrow> (case b64decode lib s of Inl e \<Rightarrow> Inl e | Inr bs \<Rightarrow> decode_utf8 lib bs)
            | _ \<Rightarrow> Inl (Exc ''TypeError''
                        (''argument should be a bytes-like object or ASCII string, not ''
                         @ squote (py_type_name body'))))
         else
           (case body' of
              JStr s \<Rightarrow> Inr s
            | _ \<Rightarrow> Inl (Exc ''TypeError''
                        (''the JSON object must be str, bytes or bytearray, not '' @ py_type_name body'))))"

definition generation_error_response :: "exc \<Rightarrow> response" where
  "generation_error_response e =
     \<lparr>statusCode = 500,
      headers = [(''Content-Type'', ''application/json''), (''Access-Control-Allow-Origin'', ''*'')],
      body = JObj [(''error'', JStr (exc_str e))]\<rparr>"

definition generation_lambda_handler ::
  "pylib \<Rightarrow> world \<Rightarrow> (string \<rightharpoonup> json) \<Rightarrow> trace \<Rightarrow> response \<times> trace" where
  "generation_lambda_handler lib w event tr =
     (case generation_body lib event of
        Inl e \<Rightarrow> (generation_error_response e, tr)
      | Inr body' \<Rightarrow>
          (case json_loads lib body' of
             Inl e \<Rightarrow> (generation_error_response e, tr)
           | Inr payload \<Rightarrow>
               (case handle_request lib w payload tr of
                  (Inl e, tr1) \<Rightarrow> (generation_error_response e, tr1)
                | (Inr result, tr1) \<Rightarrow>
                    (\<lparr>statusCode = 200,
                      headers = [(''Content-Type'', ''application/json''),
                                 (''Access-Control-Allow-Origin'', ''*''),
                                 (''Access-Control-Allow-Methods'', ''POST,OPTIONS''),
                                 (''Access-Control-Allow-Headers'', ''Content-Type,Authorization'')],
                      body = result\<rparr>, tr1))))"

section \<open>Antwort\_Validierung\_Lambda: answer validation\<close>

datatype QuestionTypeEnum = COMPREHENSION_QUESTION | CALCULATION_QUESTION

definition QuestionTypeEnum_value :: "QuestionTypeEnum \<Rightarrow> string" where
  "QuestionTypeEnum_value e =
     (case e of
        COMPREHENSION_QUESTION \<Rightarrow> ''Verst'' @ u_ae @ ''ndnisfragen''
      | CALCULATION_QUESTION \<Rightarrow> ''Rechenfragen'')"

record ValidationResult =
  is_correct :: bool
  reason :: string

definition ValidationResult_json :: "ValidationResult \<Rightarrow> json" where
  "ValidationResult_json r = JObj [(''is_correct'', JBool (is_correct r)), (''reason'', JStr (reason r))]"

subsection \<open>Agents\<close>

record CalculatorTools =
  add :: bool
  subtract :: bool
  multiply :: bool
  divide :: bool
  exponentiate :: bool
  factorial :: bool
  is_prime :: bool
  square_root :: bool

datatype tool = ReasoningTools bool | Calculator CalculatorTools

datatype model_class = ValidationResult_class

record Agent =
  name :: string
  role :: string
  tools :: "tool list"
  response_model :: "model_class option"

record Team =
  team_name :: string
  mode :: string
  members :: "Agent list"
  team_tools :: "tool list"
  team_response_model :: "model_class option"

definition calculator_tools :: CalculatorTools where
  "calculator_tools =
     \<lparr>add = True, subtract = True, multiply = True, divide = True,
      exponentiate = True, factorial = True, is_prime = True, square_root = True\<rparr>"

definition answer_validator1 :: Agent where
  "answer_validator1 =
     \<lparr>name = ''Answer Evaluator 1'', role = ''First Answer Evaluator'',
      tools = [ReasoningTools True], response_model = None\<rparr>"

definition answer_validator2 :: Agent where
  "answer_validator2 =
     \<lparr>name = ''Answer Evaluator 2'', role = ''Second Answer Evaluator'',
      tools = [ReasoningTools True], response_model = None\<rparr>"

definition master_answer_validator :: Agent where
  "master_answer_validator =
     \<lparr>name = ''Final Answer Evaluator'', role = ''Final Answer Evaluator'',
      tools = [ReasoningTools True, Calculator calculator_tools],
      response_model = Some ValidationResult_class\<rparr>"

definition agent_team :: Team where
  "agent_team =
     \<lparr>team_name = ''Evaluation Team'', mode = ''collaborate'',
      members = [answer_validator1, answer_validator2],
      team_tools = [ReasoningTools True],
      team_response_model = Some ValidationResult_class\<rparr>"

text \<open>
  The outcome of running an agent or the team, by its name and by the number of runs
  made before in the request. The trace holds the name and the message of each run; the
  two evaluators are run by the team only.
\<close>

record validation_world =
  reply :: "string \<Rightarrow> nat \<Rightarrow> string \<Rightarrow> exc + ValidationResult content"

type_synonym validation_trace = "(string \<times> string) list"

definition Agent_run ::
  "validation_world \<Rightarrow> Agent \<Rightarrow> string \<Rightarrow> validation_trace \<Rightarrow>
   (exc + ValidationResult content) \<times> validation_trace" where
  "Agent_run w a message tr = (reply w (name a) (length tr) message, tr @ [(name a, message)])"

definition Team_run ::
  "validation_world \<Rightarrow> Team \<Rightarrow> string \<Rightarrow> validation_trace \<Rightarrow>
   (exc + ValidationResult content) \<times> validation_trace" where
  "Team_run w t message tr =
     (reply w (team_name t) (length tr) message, tr @ [(team_name t, message)])"

subsection \<open>The prompt\<close>

definition prompt_template :: string where
  "prompt_template = concat
    [nl,
     ''    Werte die Antwort des Studenten aus dem gegebenen Frage-Antwort-Paar hinsichtlich ihrer inhaltlichen Korrektheit aus, indem du die Stundentenantwort mit der '', u_ue, ''bergebenen richtigen Antwort inhaltlich und sinngem'', u_ae, u_sz, '' vergleichst.'', nl,
     nl,
     ''    Frage:'', nl,
     ''    {question}'', nl,
     nl,
     ''    Studentenantwort:'', nl,
     ''    {student_answer}'', nl,
     nl,
     ''    Richtige Antwort:'', nl,
     ''    {correct_answer}'', nl]"

subsection \<open>validate\<close>

text \<open>
  \<open>validate\<close> compares its \<open>question_type\<close> argument with the enum member
  \<open>QuestionTypeEnum.COMPREHENSION_QUESTION\<close>. \<open>QuestionTypeEnum\<close> derives from \<open>Enum\<close>
  alone, so a member is equal to itself and to nothing else: a value read from the
  request, a string included, is never equal to it.
\<close>

datatype style_arg = FromRequest json | Member QuestionTypeEnum

fun py_eq_member :: "style_arg \<Rightarrow> QuestionTypeEnum \<Rightarrow> bool" where
  "py_eq_member (Member e) e' = (e = e')"
| "py_eq_member (FromRequest v) e' = False"

text \<open>
  In the comprehension branch the result is tested with \<open>in\<close>: this is a substring
  test on a text, it finds nothing in a model instance (whose items are pairs), and it
  raises on \<open>None\<close>. The test only decides whether a line is printed.
\<close>

definition validate ::
  "validation_world \<Rightarrow> string \<Rightarrow> style_arg \<Rightarrow> validation_trace \<Rightarrow>
   (exc + ValidationResult content) \<times> validation_trace" where
  "validate w message question_type' tr =
     (if py_eq_member question_type' COMPREHENSION_QUESTION then
        (case Team_run w agent_team message tr of
           (Inl e, tr1) \<Rightarrow> (Inl e, tr1)
         | (Inr validation_result, tr1) \<Rightarrow>
             (case validation_result of
                NoContent \<Rightarrow> (Inl (Exc ''TypeError'' ''argument of type 'NoneType' is not iterable''), tr1)
              | _ \<Rightarrow> (Inr validation_result, tr1)))
      else Agent_run w master_answer_validator message tr)"

subsection \<open>The Lambda entry point\<close>

record validation_response =
  v_statusCode :: int
  v_headers :: "(string \<times> string) list option"
  v_body :: json

definition validation_error_response :: "exc \<Rightarrow> validation_response" where
  "validation_error_response e =
     \<lparr>v_statusCode = 500, v_headers = None, v_body = JStr (''Fehler: '' @ exc_str e)\<rparr>"

text \<open>
  The part of \<open>lambda_handler\<close> inside \<open>try\<close>: every exception becomes a response
  with status 500. \<open>result.json()\<close> exists on a model instance only.
\<close>

definition validation_try ::
  "pylib \<Rightarrow> validation_world \<Rightarrow> json \<Rightarrow> validation_trace \<Rightarrow> validation_response \<times> validation_trace" where
  "validation_try lib w body_decoded tr =
     (case (case body_decoded of
              JStr s \<Rightarrow> json_loads lib s
            | _ \<Rightarrow> Inl (Exc ''TypeError''
                        (''the JSON object must be str, bytes or bytearray, not ''
                         @ py_type_name body_decoded))) of
        Inl e \<Rightarrow> (validation_error_response e, tr)
      | Inr (JObj d) \<Rightarrow>
          (let question_text' = dict_get d ''question_text'' (JStr '''');
               student_answer = dict_get d ''student_answer'' (JStr '''');
               correct_answer' = dict_get d ''correct_answer'' JNull;
               question_style = dict_get d ''question_style'' (JStr '''')
           in case py_format prompt_template
                     [(''question'', py_str lib question_text'),
                      (''student_answer'', py_str lib student_answer),
                      (''correct_answer'', py_str lib correct_answer')] of
                Inl e \<Rightarrow> (validation_error_response e, tr)
              | Inr prompt \<Rightarrow>
                  (case validate w prompt (FromRequest question_style) tr of
                     (Inl e, tr1) \<Rightarrow> (validation_error_response e, tr1)
                   | (Inr (Model result), tr1) \<Rightarrow>
                       (\<lparr>v_statusCode = 200,
                         v_headers = Some [(''Access-Control-Allow-Origin'', ''*''),
                                           (''Access-Control-Allow-Methods'', ''POST,OPTIONS''),
                                           (''Access-Control-Allow-Headers'', ''Content-Type,Authorization'')],
                         v_body = ValidationResult_json result\<rparr>, tr1)
                   | (Inr (Text t), tr1) \<Rightarrow>
                       (validation_error_response (no_attribute ''str'' ''json''), tr1)
                   | (Inr NoContent, tr1) \<Rightarrow>
                       (validation_error_response (no_attribute ''NoneType'' ''json''), tr1)))
      | Inr other \<Rightarrow>
          (validation_error_response (no_attribute (py_type_name other) ''get''), tr))"

text \<open>
  \<open>lambda_handler\<close>: reading \<open>event["body"]\<close> and decoding it come before \<open>try\<close>,
  so an exception there leaves the handler (\<open>Inl\<close>). \<open>decoded_body\<close> is the value
  of \<open>body_decoded\<close>.
\<close>

definition decoded_body :: "pylib \<Rightarrow> (string \<rightharpoonup> json) \<Rightarrow> json \<Rightarrow> exc + json" where
  "decoded_body lib event raw_body =
     (let isBase64Encoded = (case event ''isBase64Encoded'' of None \<Rightarrow> JBool False | Some v \<Rightarrow> v)
      in if truthy isBase64Encoded then
           (case raw_body of
              JStr s \<Rightarrow> (case b64decode lib s of Inl e \<Rightarrow> Inl e | Inr bs \<Rightarrow> Inr (JStr bs))
            | _ \<Rightarrow> Inl (Exc ''TypeError''
                        (''argument should be a bytes-like object or ASCII string, not ''
                         @ squote (py_type_name raw_body))))
         else Inr raw_body)"

definition validation_lambda_handler ::
  "pylib \<Rightarrow> validation_world \<Rightarrow> (string \<rightharpoonup> json) \<Rightarrow> validation_trace \<Rightarrow>
   (exc + validation_response) \<times> validation_trace" where
  "validation_lambda_handler lib w event tr =
     (case event ''body'' of
        None \<Rightarrow> (Inl (Exc ''KeyError'' (squote ''body'')), tr)
      | Some raw_body \<Rightarrow>
          (case decoded_body lib event raw_body of
             Inl e \<Rightarrow> (Inl e, tr)
           | Inr body_decoded \<Rightarrow>
               (case validation_try lib w body_decoded tr of (r, tr1) \<Rightarrow> (Inr r, tr1))))"

section \<open>PDF\_Upload\_Lambda: storing and indexing uploaded files\<close>

text \<open>
  The S3 bucket is a map from object key to content. The \<open>pdf_documents\<close> table of the
  vector store is \<open>None\<close> while it does not exist, and otherwise a map from the identity
  of a document to the document. What lies outside the repository is given by an
  \<open>upload_world\<close>: whether S3 accepts an object, the order in which S3 completes the
  puts of one upload, and the documents, each with its identity, that the PDF reader
  and the vector store make of a URL. When an exception is raised the model does not
  describe the stores.
\<close>

record stores =
  bucket :: "string \<rightharpoonup> string"
  table :: "(string \<rightharpoonup> string) option"

record upload_world =
  put_object_error :: "string \<Rightarrow> exc option"
  completion_order :: "(string \<times> string) list \<Rightarrow> (string \<times> string) list"
  read_url :: "(string \<rightharpoonup> string) \<Rightarrow> string \<Rightarrow> exc + (string \<times> string) list"

text \<open>
  \<open>main\<close> is given the pairs of filename and content that \<open>extract_files\<close> found in
  the multipart body. \<open>save_files_to_s3\<close> starts one \<open>put_object\<close> per file, all at
  once, and waits for all of them; the code fixes no order among them. \<open>put_objects\<close>
  applies the puts one after the other, and \<open>save_files_to_s3\<close> applies them in the
  order of completion that the world gives.
\<close>

fun put_objects ::
  "upload_world \<Rightarrow> (string \<times> string) list \<Rightarrow> (string \<rightharpoonup> string) \<Rightarrow> exc + (string \<rightharpoonup> string)" where
  "put_objects w [] b = Inr b"
| "put_objects w ((filename, file_content) # files) b =
     (case put_object_error w filename of
        Some e \<Rightarrow> Inl e
      | None \<Rightarrow> put_objects w files (b(filename \<mapsto> file_content)))"

definition save_files_to_s3 ::
  "upload_world \<Rightarrow> (string \<times> string) list \<Rightarrow> (string \<rightharpoonup> string) \<Rightarrow> exc + (string \<rightharpoonup> string)" where
  "save_files_to_s3 w files b = put_objects w (completion_order w files) b"

text \<open>
  \<open>knowledge_base.aload(recreate, upsert=True)\<close> of the agno library, for a
  \<open>PDFUrlKnowledgeBase\<close>: with \<open>recreate\<close> the table is created anew; a knowledge base
  without URLs raises ValueError; a URL that does not end in \<open>.pdf\<close> is skipped; every
  other URL is read, and each of its documents is inserted under its identity,
  replacing the row of the same identity.
\<close>

definition upsert_documents ::
  "(string \<times> string) list \<Rightarrow> (string \<rightharpoonup> string) \<Rightarrow> (string \<rightharpoonup> string)" where
  "upsert_documents docs t = fold (\<lambda>(k, d) t'. t'(k \<mapsto> d)) docs t"

fun upsert_urls ::
  "upload_world \<Rightarrow> (string \<rightharpoonup> string) \<Rightarrow> string list \<Rightarrow> (string \<rightharpoonup> string) \<Rightarrow>
   exc + (string \<rightharpoonup> string)" where
  "upsert_urls w b [] t = Inr t"
| "upsert_urls w b (url # urls) t =
     (if suffix ''.pdf'' url then
        (case read_url w b url of
           Inl e \<Rightarrow> Inl e
         | Inr docs \<Rightarrow> upsert_urls w b urls (upsert_documents docs t))
      else upsert_urls w b urls t)"

definition aload ::
  "upload_world \<Rightarrow> (string \<rightharpoonup> string) \<Rightarrow> string list \<Rightarrow> bool \<Rightarrow> (string \<rightharpoonup> string) option \<Rightarrow>
   exc + (string \<rightharpoonup> string)" where
  "aload w b urls recreate t =
     (if urls = [] then Inl (Exc ''ValueError'' ''URLs are not set'')
      else upsert_urls w b urls
             (if recreate then Map.empty else (case t of None \<Rightarrow> Map.empty | Some m \<Rightarrow> m)))"

text \<open>The base URL of the bucket, a constant of \<open>lambda_handler\<close>.\<close>

definition s3_bucket_base_url :: string where
  "s3_bucket_base_url = ''https://tl-course-materials.s3.eu-central-1.amazonaws.com''"

definition s3_file_urls :: "string \<Rightarrow> string list \<Rightarrow> string list" where
  "s3_file_urls base_url filenames = map (\<lambda>filename. base_url @ ''/'' @ filename) filenames"

definition load_files_from_s3_to_knowledge_base ::
  "upload_world \<Rightarrow> string \<Rightarrow> string list \<Rightarrow> stores \<Rightarrow> exc + stores" where
  "load_files_from_s3_to_knowledge_base w base_url filenames s =
     (let urls = s3_file_urls base_url filenames;
          exists = (table s \<noteq> None)
      in case aload w (bucket s) urls (\<not> exists) (table s) of
           Inl e \<Rightarrow> Inl e
         | Inr t \<Rightarrow> Inr (s\<lparr>table := Some t\<rparr>))"

definition main ::
  "upload_world \<Rightarrow> string \<Rightarrow> (string \<times> string) list \<Rightarrow> stores \<Rightarrow> exc + stores" where
  "main w base_url files s =
     (case save_files_to_s3 w files (bucket s) of
        Inl e \<Rightarrow> Inl e
      | Inr b \<Rightarrow>
          load_files_from_s3_to_knowledge_base w base_url (map fst files) (s\<lparr>bucket := b\<rparr>))"

section \<open>Observations on traces and results\<close>

definition is_generator :: "agent \<Rightarrow> bool" where
  "is_generator a = (a = COMPREHENSION_QA_GENERATOR \<or> a = CALCULATION_QA_GENERATOR)"

definition count_calls :: "(agent \<Rightarrow> bool) \<Rightarrow> trace \<Rightarrow> nat" where
  "count_calls P tr = length (filter (\<lambda>c. P (callee c)) tr)"

text \<open>The value that \<open>json.loads\<close> returns for the serialised generator content.\<close>

definition content_value :: "QuestionResponse content \<Rightarrow> json" where
  "content_value c =
     (case c of Model m \<Rightarrow> QuestionResponse_json m | Text s \<Rightarrow> JStr s | NoContent \<Rightarrow> JNull)"

text \<open>The content of the latest generator run in a trace.\<close>

fun last_generated :: "trace \<Rightarrow> QuestionResponse content option" where
  "last_generated [] = None"
| "last_generated (c # cs) =
     (case last_generated cs of
        Some g \<Rightarrow> Some g
      | None \<Rightarrow> (case call_outcome c of Generated g \<Rightarrow> Some g | _ \<Rightarrow> None))"

text \<open>A reviewer run that approved, and a run that raised or gave the reviewer no text.\<close>

definition approving :: "call \<Rightarrow> bool" where
  "approving c =
     (case call_outcome c of Reviewed (Some fb) \<Rightarrow> str_contains ''Review OK'' fb | _ \<Rightarrow> False)"

definition failing :: "call \<Rightarrow> bool" where
  "failing c = (case call_outcome c of Raised e \<Rightarrow> True | Reviewed None \<Rightarrow> True | _ \<Rightarrow> False)"

text \<open>
  What the world answers to a call, as an outcome, and the traces that log calls
  answered by the world: the call at position \<open>n\<close> of a request carries the outcome
  that the world gives for its agent, that position and its prompt.
\<close>

definition reply_outcome :: "world \<Rightarrow> agent \<Rightarrow> nat \<Rightarrow> string \<Rightarrow> outcome" where
  "reply_outcome w a n p =
     (case a of
        KNOWLEDGE_RETRIEVER \<Rightarrow>
          (case retriever_reply w n p of Inl e \<Rightarrow> Raised e | Inr c \<Rightarrow> Retrieved c)
      | QUESTION_REVIEWER \<Rightarrow>
          (case reviewer_reply w n p of Inl e \<Rightarrow> Raised e | Inr c \<Rightarrow> Reviewed c)
      | _ \<Rightarrow>
          (case generator_reply w a n p of Inl e \<Rightarrow> Raised e | Inr c \<Rightarrow> Generated c))"

fun logged_by :: "world \<Rightarrow> nat \<Rightarrow> trace \<Rightarrow> bool" where
  "logged_by w n [] = True"
| "logged_by w n (c # cs) =
     (call_outcome c = reply_outcome w (callee c) n (call_prompt c) \<and> logged_by w (Suc n) cs)"


definition evaluator_pool_invoked :: "validation_trace \<Rightarrow> bool" where
  "evaluator_pool_invoked tr = (team_name agent_team \<in> fst ` set tr)"

section \<open>A library instance and scripted worlds\<close>

text \<open>
  \<open>base64.b64decode\<close> as CPython computes it without validation: characters outside
  the alphabet are skipped, decoding stops at a completed padding, and input that ends
  inside a group of four is an error. A string with a character beyond ASCII is refused
  before.
\<close>

definition b64_value :: "char \<Rightarrow> nat option" where
  "b64_value c =
     (let n = (of_char c :: nat)
      in if 65 \<le> n \<and> n \<le> 90 then Some (n - 65)
         else if 97 \<le> n \<and> n \<le> 122 then Some (n - 71)
         else if 48 \<le> n \<and> n \<le> 57 then Some (n + 4)
         else if c = CHR ''+'' then Some 62
         else if c = CHR ''/'' then Some 63
         else None)"

definition then_cons :: "char \<Rightarrow> exc + string \<Rightarrow> exc + string" where
  "then_cons c r = (case r of Inl e \<Rightarrow> Inl e | Inr s \<Rightarrow> Inr (c # s))"

fun a2b_base64 :: "nat \<Rightarrow> nat \<Rightarrow> nat \<Rightarrow> nat \<Rightarrow> string \<Rightarrow> exc + string" where
  "a2b_base64 quad_pos leftchar pads ndata [] =
     (if quad_pos = 0 then Inr []
      else if quad_pos = 1 then
        Inl (Exc ''binascii.Error''
               (''Invalid base64-encoded string: number of data characters ('' @ str_of_nat ndata
                @ '') cannot be 1 more than a multiple of 4''))
      else Inl (Exc ''binascii.Error'' ''Incorrect padding''))"
| "a2b_base64 quad_pos leftchar pads ndata (c # cs) =
     (if c = CHR ''='' then
        (if 2 \<le> quad_pos then
           (if 4 \<le> quad_pos + Suc pads then Inr []
            else a2b_base64 quad_pos leftchar (Suc pads) ndata cs)
         else a2b_base64 quad_pos leftchar pads ndata cs)
      else
        (case b64_value c of
           None \<Rightarrow> a2b_base64 quad_pos leftchar pads ndata cs
         | Some v \<Rightarrow>
             (if quad_pos = 0 then a2b_base64 1 v 0 (Suc ndata) cs
              else if quad_pos = 1 then
                then_cons (char_of (leftchar * 4 + v div 16)) (a2b_base64 2 (v mod 16) 0 (Suc ndata) cs)
              else if quad_pos = 2 then
                then_cons (char_of (leftchar * 16 + v div 4)) (a2b_base64 3 (v mod 4) 0 (Suc ndata) cs)
              else then_cons (char_of (leftchar * 64 + v)) (a2b_base64 0 0 0 (Suc ndata) cs))))"

definition b64decode_py :: "string \<Rightarrow> exc + string" where
  "b64decode_py s =
     (if \<exists>c\<in>set s. 128 \<le> (of_char c :: nat)
      then Inl (Exc ''ValueError'' ''string argument should contain only ASCII characters'')
      else a2b_base64 0 0 0 0 s)"

text \<open>
  \<open>bytes.decode()\<close>: the bytes are returned when they are well-formed UTF-8. The
  message of the error names the codec only, not the byte and its position.
\<close>

definition continuation :: "char \<Rightarrow> bool" where
  "continuation c = (128 \<le> (of_char c :: nat) \<and> (of_char c :: nat) \<le> 191)"

fun utf8_wellformed :: "string \<Rightarrow> bool" where
  "utf8_wellformed [] = True"
| "utf8_wellformed [a] = ((of_char a :: nat) < 128)"
| "utf8_wellformed [a, b] =
     (let x = (of_char a :: nat)
      in if x < 128 then utf8_wellformed [b] else 194 \<le> x \<and> x \<le> 223 \<and> continuation b)"
| "utf8_wellformed [a, b, c] =
     (let x = (of_char a :: nat); y = (of_char b :: nat)
      in if x < 128 then utf8_wellformed [b, c]
         else if 194 \<le> x \<and> x \<le> 223 then continuation b \<and> utf8_wellformed [c]
         else 224 \<le> x \<and> x \<le> 239 \<and> continuation b \<and> continuation c
              \<and> (if x = 224 then 160 \<le> y else True) \<and> (if x = 237 then y \<le> 159 else True))"
| "utf8_wellformed (a # b # c # d # rest) =
     (let x = (of_char a :: nat); y = (of_char b :: nat)
      in if x < 128 then utf8_wellformed (b # c # d # rest)
         else if 194 \<le> x \<and> x \<le> 223 then continuation b \<and> utf8_wellformed (c # d # rest)
         else if 224 \<le> x \<and> x \<le> 239 then
           continuation b \<and> continuation c \<and> (if x = 224 then 160 \<le> y else True) \<and> (if x = 237 then y \<le> 159 else True)
           \<and> utf8_wellformed (d # rest)
         else 240 \<le> x \<and> x \<le> 244 \<and> continuation b \<and> continuation c \<and> continuation d
              \<and> (if x = 240 then 144 \<le> y else True) \<and> (if x = 244 then y \<le> 143 else True)
              \<and> utf8_wellformed rest)"

definition decode_utf8_py :: "string \<Rightarrow> exc + string" where
  "decode_utf8_py bs =
     (if utf8_wellformed bs then Inr bs
      else Inl (Exc ''UnicodeDecodeError'' (squote ''utf-8'' @ '' codec can'' @ [CHR 0x27] @ ''t decode bytes'')))"

text \<open>
  \<open>int\<close> of a string: blanks around an optional sign and decimal digits, with single
  underscores between digits. Digits beyond ASCII are not recognised, and the message
  of the error does not repeat the string.
\<close>

definition is_digit :: "char \<Rightarrow> bool" where
  "is_digit c = (48 \<le> (of_char c :: nat) \<and> (of_char c :: nat) \<le> 57)"

fun digits_value :: "nat \<Rightarrow> bool \<Rightarrow> string \<Rightarrow> nat option" where
  "digits_value acc after_digit [] = (if after_digit then Some acc else None)"
| "digits_value acc after_digit (c # cs) =
     (if is_digit c then digits_value (acc * 10 + ((of_char c :: nat) - 48)) True cs
      else if c = CHR ''_'' \<and> after_digit then digits_value acc False cs
      else None)"

definition int_of_str_py :: "string \<Rightarrow> exc + int" where
  "int_of_str_py s =
     (let t = py_strip s;
          (negative, ds) =
            (case t of
               c # cs \<Rightarrow> if c = CHR ''-'' then (True, cs) else if c = CHR ''+'' then (False, cs) else (False, t)
             | [] \<Rightarrow> (False, t))
      in case digits_value 0 False ds of
           None \<Rightarrow> Inl (Exc ''ValueError'' ''invalid literal for int() with base 10'')
         | Some n \<Rightarrow> Inr (if negative then - int n else int n))"

text \<open>
  The bodies of three requests, as JSON texts, and the values they denote.
\<close>

definition json_member :: "string \<Rightarrow> string \<Rightarrow> string" where
  "json_member k v = dquote @ k @ dquote @ '': '' @ dquote @ v @ dquote"

definition validation_request_body :: "string \<Rightarrow> string" where
  "validation_request_body style =
     ''{'' @ json_member ''question_text'' ''Was ist 2 + 2?'' @ '', ''
     @ json_member ''student_answer'' ''5'' @ '', ''
     @ json_member ''correct_answer'' ''4'' @ '', ''
     @ json_member ''question_style'' style @ ''}''"

definition example_request :: "string \<Rightarrow> json" where
  "example_request style =
     JObj [(''question_text'', JStr ''Was ist 2 + 2?''),
           (''student_answer'', JStr ''5''),
           (''correct_answer'', JStr ''4''),
           (''question_style'', JStr style)]"

definition comprehension_request_body :: string where
  "comprehension_request_body = validation_request_body (''Verst'' @ u_ae @ ''ndnisfragen'')"

definition calculation_request_body :: string where
  "calculation_request_body = validation_request_body ''Rechenfragen''"

definition generation_request_body :: string where
  "generation_request_body =
     ''{'' @ dquote @ ''anzahl_fragen'' @ dquote @ '': 3, ''
     @ json_member ''fragetyp'' (''Verst'' @ u_ae @ ''ndnisfragen'') @ '', ''
     @ json_member ''keywords'' ''rechnen'' @ '', ''
     @ json_member ''schwierigkeitsgrad'' ''mittel'' @ '', ''
     @ json_member ''thema'' ''Statistik'' @ '', ''
     @ json_member ''zielgruppe'' ''bachelor'' @ ''}''"

definition example_payload :: json where
  "example_payload =
     JObj [(''anzahl_fragen'', JInt 3),
           (''fragetyp'', JStr (''Verst'' @ u_ae @ ''ndnisfragen'')),
           (''keywords'', JStr ''rechnen''),
           (''schwierigkeitsgrad'', JStr ''mittel''),
           (''thema'', JStr ''Statistik''),
           (''zielgruppe'', JStr ''bachelor'')]"

text \<open>
  A library for the examples. Its \<open>json_loads\<close> knows the three request bodies and the
  empty object and takes every other text for malformed; its serialisers print a fixed
  mark instead of the text.
\<close>

definition example_lib :: pylib where
  "example_lib =
     \<lparr>json_loads = (\<lambda>s. if s = comprehension_request_body
                           then Inr (example_request (''Verst'' @ u_ae @ ''ndnisfragen''))
                         else if s = calculation_request_body then Inr (example_request ''Rechenfragen'')
                         else if s = generation_request_body then Inr example_payload
                         else if s = ''{}'' then Inr (JObj [])
                         else Inl (Exc ''JSONDecodeError'' ''Expecting value: line 1 column 1 (char 0)'')),
      b64decode = b64decode_py,
      decode_utf8 = decode_utf8_py,
      render_json = (\<lambda>v. ''<json>''),
      render_model = (\<lambda>v. ''<model>''),
      int_of_str = int_of_str_py,
      repr_of = (\<lambda>v. ''<repr>'')\<rparr>"

definition example_question :: Question where
  "example_question =
     \<lparr>question_text = ''Was ist der Median?'', question_type = TEXT,
      multiple_choice_options = Some [], correct_answer = ''Der mittlere Wert''\<rparr>"

definition example_context :: string where
  "example_context = ''Zusammenfassung:'' @ nl @ ''- Median''"

definition scripted_world :: "Question list \<Rightarrow> string option \<Rightarrow> world" where
  "scripted_world qs review =
     \<lparr>retriever_reply = (\<lambda>n p. Inr (Some example_context)),
      generator_reply = (\<lambda>g n p. Inr (Model \<lparr>questions = qs\<rparr>)),
      reviewer_reply = (\<lambda>n p. Inr review)\<rparr>"

definition scripted_validation_world :: "ValidationResult \<Rightarrow> validation_world" where
  "scripted_validation_world r = \<lparr>reply = (\<lambda>a n p. Inr (Model r))\<rparr>"


text \<open>
  An S3 that accepts every object, completes the puts in the order of the request and
  serves the object whose key follows the base URL; the document read from a URL has
  the URL as its identity.
\<close>

definition example_upload_world :: upload_world where
  "example_upload_world =
     \<lparr>put_object_error = (\<lambda>k. None),
      completion_order = (\<lambda>files. files),
      read_url = (\<lambda>b u. case b (drop (Suc (length s3_bucket_base_url)) u) of
                            None \<Rightarrow> Inl (Exc ''HTTPError'' ''HTTP Error 404: Not Found'')
                          | Some c \<Rightarrow> Inr [(u, c)])\<rparr>"

text \<open>The message that \<open>prompt_template.format\<close> yields for a question and two answers.\<close>

definition validation_prompt :: "string \<Rightarrow> string \<Rightarrow> string \<Rightarrow> string" where
  "validation_prompt q a c = concat
    [nl,
     ''    Werte die Antwort des Studenten aus dem gegebenen Frage-Antwort-Paar hinsichtlich ihrer inhaltlichen Korrektheit aus, indem du die Stundentenantwort mit der '', u_ue, ''bergebenen richtigen Antwort inhaltlich und sinngem'', u_ae, u_sz, '' vergleichst.'', nl,
     nl,
     ''    Frage:'', nl,
     ''    '', q, nl,
     nl,
     ''    Studentenantwort:'', nl,
     ''    '', a, nl,
     nl,
     ''    Richtige Antwort:'', nl,
     ''    '', c, nl]"

text \<open>The message built from the body of a validation request.\<close>

definition request_prompt :: "pylib \<Rightarrow> (string \<times> json) list \<Rightarrow> string" where
  "request_prompt lib d =
     validation_prompt (py_str lib (dict_get d ''question_text'' (JStr [])))
                       (py_str lib (dict_get d ''student_answer'' (JStr [])))
                       (py_str lib (dict_get d ''correct_answer'' JNull))"

text \<open>
  The prompts of a run in closed form: the retriever's instructions with the query
  filled in, the generator prompt with the feedback of the round before, and the review
  prompt for a generated content.
\<close>

definition retriever_prompt :: "string \<Rightarrow> string" where
  "retriever_prompt query = concat
    [nl,
     ''Ich greife direkt auf die pgvector-Datenbank zu, um relevante Chunks zum Thema **'', query, ''** zu finden.'', nl,
     ''Nutze dazu '', backtick, ''search'', backtick, '', '', backtick, ''think'', backtick, '', '', backtick, ''analyze'', backtick, ''. Gib deine Antwort exakt so zur'', u_ue, ''ck:'', nl,
     nl,
     ''Zusammenfassung:'', nl,
     ''- <Bullet 1>'', nl,
     ''- '', u_hellip, '' (max. 10 Bullets)'', nl]"

definition generator_prompt :: "agent \<Rightarrow> string option \<Rightarrow> string" where
  "generator_prompt g feedback =
     instructions g @
     (case feedback of
        None \<Rightarrow> []
      | Some fb \<Rightarrow> if fb \<noteq> [] then nl @ ''Vorheriges Feedback:'' @ nl @ fb @ nl else [])"

definition dumped :: "pylib \<Rightarrow> QuestionResponse content \<Rightarrow> json_text" where
  "dumped lib c =
     (case c of
        Model m \<Rightarrow> model_dump_json lib m
      | Text s \<Rightarrow> json_dumps lib (JStr s)
      | NoContent \<Rightarrow> json_dumps lib JNull)"

definition review_prompt :: "pylib \<Rightarrow> QuestionResponse content \<Rightarrow> json \<Rightarrow> json \<Rightarrow> string" where
  "review_prompt lib c difficulty audience =
     ''Bewerte folgende Frage-Antwort-Paare:'' @ nl @ rendered (dumped lib c)
     @ nl @ ''Schwierigkeitsgrad: '' @ py_str lib difficulty
     @ nl @ ''Zielgruppe: '' @ py_str lib audience"

definition is_reviewer :: "agent \<Rightarrow> bool" where
  "is_reviewer a = (a = QUESTION_REVIEWER)"

text \<open>The search string of a request: topic and keywords joined by a blank and stripped.\<close>

definition search_query :: "pylib \<Rightarrow> json \<Rightarrow> json \<Rightarrow> string" where
  "search_query lib subjects keywords = py_strip (py_str lib subjects @ '' '' @ py_str lib keywords)"

definition example_workflow :: QAWorkflow where
  "example_workflow =
     \<lparr>generator = COMPREHENSION_QA_GENERATOR, q_type_label = ''Verst'' @ u_ae @ ''ndnisfrage''\<rparr>"

section \<open>Properties of \<open>str.format\<close>\<close>

lemma then_prepend_Inr [simp]: "then_prepend v (Inr s) = Inr (v @ s)"
  by (simp add: then_prepend_def)

lemma then_prepend_Inl [simp]: "then_prepend v (Inl e) = Inl e"
  by (simp add: then_prepend_def)

lemma then_prepend_append: "then_prepend (u @ v) r = then_prepend u (then_prepend v r)"
  by (cases r) simp_all

lemma fmt_literal:
  "CHR ''{'' \<notin> set t \<Longrightarrow> CHR ''}'' \<notin> set t \<Longrightarrow> fmt kw None (t @ rest) = then_prepend t (fmt kw None rest)"
proof (induction t)
  case Nil
  show ?case by (cases "fmt kw None rest") simp_all
next
  case (Cons c t)
  then show ?case
    by (auto simp: then_prepend_def split: sum.splits)
qed

lemma fmt_no_braces:
  "CHR ''{'' \<notin> set t \<Longrightarrow> CHR ''}'' \<notin> set t \<Longrightarrow> fmt kw None t = Inr t"
  using fmt_literal [of t kw "[]"] by simp

lemma fmt_field_name:
  "CHR ''}'' \<notin> set n \<Longrightarrow>
   fmt kw (Some acc) (n @ CHR ''}'' # rest) =
     (case map_of kw (acc @ n) of
        None \<Rightarrow> Inl (Exc ''KeyError'' (squote (acc @ n)))
      | Some v \<Rightarrow> then_prepend v (fmt kw None rest))"
  by (induction n arbitrary: acc) (auto split: option.split)

lemma fmt_field:
  "n \<noteq> [] \<Longrightarrow> hd n \<noteq> CHR ''{'' \<Longrightarrow> CHR ''}'' \<notin> set n \<Longrightarrow>
   fmt kw None (CHR ''{'' # n @ CHR ''}'' # rest) =
     (case map_of kw n of
        None \<Rightarrow> Inl (Exc ''KeyError'' (squote n))
      | Some v \<Rightarrow> then_prepend v (fmt kw None rest))"
  using fmt_field_name [of n kw "[]" rest] by (cases n) (simp_all split: option.splits)

lemma comprehension_no_braces:
  "CHR ''{'' \<notin> set COMPREHENSION_QA_GENERATOR_INSTRUCTIONS \<and> CHR ''}'' \<notin> set COMPREHENSION_QA_GENERATOR_INSTRUCTIONS"
  by (simp add: COMPREHENSION_QA_GENERATOR_INSTRUCTIONS_def nl_def u_ae_def u_oe_def u_ue_def u_sz_def u_rarr_def u_ndash_def u_nnbsp_def)

lemma calculation_no_braces:
  "CHR ''{'' \<notin> set CALCULATION_QA_GENERATOR_INSTRUCTIONS \<and> CHR ''}'' \<notin> set CALCULATION_QA_GENERATOR_INSTRUCTIONS"
  by (simp add: CALCULATION_QA_GENERATOR_INSTRUCTIONS_def nl_def u_ae_def u_oe_def u_ue_def u_sz_def u_rarr_def u_ndash_def u_nnbsp_def)

lemma prompt_template_format:
  "py_format prompt_template [(''question'', q), (''student_answer'', a), (''correct_answer'', c)]
     = Inr (validation_prompt q a c)"
  by (simp add: py_format_def prompt_template_def validation_prompt_def nl_def u_ue_def u_ae_def u_sz_def)

section \<open>Selection of the generator\<close>

lemma of_char_lower_char:
  "(of_char (lower_char c) :: nat) = (if 65 \<le> (of_char c :: nat) \<and> (of_char c :: nat) \<le> 90 then of_char c + 32 else of_char c)"
  by (simp add: lower_char_def Let_def)

lemma lower_char_eq_lower:
  assumes "97 \<le> (of_char x :: nat)" and "(of_char x :: nat) \<le> 122"
  shows "lower_char c = x \<longleftrightarrow> c = x \<or> (of_char c :: nat) + 32 = of_char x"
proof -
  have "lower_char c = x \<longleftrightarrow> (of_char (lower_char c) :: nat) = of_char x"
    by simp
  also have "\<dots> \<longleftrightarrow> (of_char c :: nat) = of_char x \<or> (of_char c :: nat) + 32 = of_char x"
    using assms by (auto simp: of_char_lower_char)
  finally show ?thesis by simp
qed

lemma char_by_code: "c = d \<longleftrightarrow> (of_char c :: nat) = of_char d"
  by simp

lemma lower_char_v: "lower_char c = CHR ''v'' \<longleftrightarrow> c = CHR ''v'' \<or> c = CHR ''V''"
  using lower_char_eq_lower [of "CHR ''v''" c]
  by (simp add: char_by_code [of c] del: of_char_eq_iff)

lemma lower_char_e: "lower_char c = CHR ''e'' \<longleftrightarrow> c = CHR ''e'' \<or> c = CHR ''E''"
  using lower_char_eq_lower [of "CHR ''e''" c]
  by (simp add: char_by_code [of c] del: of_char_eq_iff)

lemma lower_char_r: "lower_char c = CHR ''r'' \<longleftrightarrow> c = CHR ''r'' \<or> c = CHR ''R''"
  using lower_char_eq_lower [of "CHR ''r''" c]
  by (simp add: char_by_code [of c] del: of_char_eq_iff)

lemma lower_char_flipped_v: "CHR ''v'' = lower_char c \<longleftrightarrow> c = CHR ''v'' \<or> c = CHR ''V''"
  unfolding lower_char_v [symmetric] by (rule eq_commute)

lemma lower_char_flipped_e: "CHR ''e'' = lower_char c \<longleftrightarrow> c = CHR ''e'' \<or> c = CHR ''E''"
  unfolding lower_char_e [symmetric] by (rule eq_commute)

lemma lower_char_flipped_r: "CHR ''r'' = lower_char c \<longleftrightarrow> c = CHR ''r'' \<or> c = CHR ''R''"
  unfolding lower_char_r [symmetric] by (rule eq_commute)

lemma py_lower_prefix_ver:
  "prefix ''ver'' (py_lower s) =
     (case s of
        a # b # c # rest \<Rightarrow>
          (a = CHR ''v'' \<or> a = CHR ''V'') \<and> (b = CHR ''e'' \<or> b = CHR ''E'') \<and> (c = CHR ''r'' \<or> c = CHR ''R'')
      | _ \<Rightarrow> False)"
  by (simp add: py_lower_def lower_char_flipped_v lower_char_flipped_e lower_char_flipped_r split: list.splits)


text \<open>
  C10. The generator variant is chosen by a case-insensitive prefix test on the
  \<open>fragetyp\<close> string: when its lowercased form starts with \<open>ver\<close>, that is, when its
  first three characters are v, e, r in either case, the comprehension generator is
  selected, and for every other string the calculation generator.
\<close>

theorem generator_selected_by_prefix:
  "(\<exists>workflow. QAWorkflow_init (JStr fragetyp) = Inr workflow
      \<and> generator workflow =
          (if prefix ''ver'' (py_lower fragetyp) then COMPREHENSION_QA_GENERATOR
           else CALCULATION_QA_GENERATOR))
   \<and> prefix ''ver'' (py_lower fragetyp) =
       (case fragetyp of
          a # b # c # rest \<Rightarrow>
            (a = CHR ''v'' \<or> a = CHR ''V'') \<and> (b = CHR ''e'' \<or> b = CHR ''E'')
            \<and> (c = CHR ''r'' \<or> c = CHR ''R'')
        | _ \<Rightarrow> False)"
  by (simp add: QAWorkflow_init_def Let_def py_lower_prefix_ver)

text \<open>
  The strings of the request format, a misspelling, the empty string and strings that
  are too short or start with a blank.
\<close>

lemma generator_examples:
  "map (\<lambda>s. map_sum exc_class generator (QAWorkflow_init (JStr s)))
     [''Verst'' @ u_ae @ ''ndnisfragen'', ''VERSTEHEN'', ''verbal'', ''Rechenfragen'', [],
      ''Vrst'' @ u_ae @ ''ndnisfragen'', ''Ve'', '' Verst'']
   = [Inr COMPREHENSION_QA_GENERATOR, Inr COMPREHENSION_QA_GENERATOR, Inr COMPREHENSION_QA_GENERATOR,
      Inr CALCULATION_QA_GENERATOR, Inr CALCULATION_QA_GENERATOR, Inr CALCULATION_QA_GENERATOR,
      Inr CALCULATION_QA_GENERATOR, Inr CALCULATION_QA_GENERATOR]"
  by (simp add: QAWorkflow_init_def Let_def py_lower_prefix_ver)

theorem generator_selected_by_prefix_witness:
  "(\<exists>workflow. QAWorkflow_init (JStr ''VERST-Fragen'') = Inr workflow
      \<and> generator workflow = COMPREHENSION_QA_GENERATOR)
   \<and> (\<exists>workflow. QAWorkflow_init (JStr ''Rechenfragen'') = Inr workflow
      \<and> generator workflow = CALCULATION_QA_GENERATOR)"
  using generator_selected_by_prefix [of "''VERST-Fragen''"]
    generator_selected_by_prefix [of "''Rechenfragen''"]
  by (simp add: py_lower_prefix_ver)

section \<open>Routing of validation requests\<close>

lemma validate_FromRequest:
  "validate w message (FromRequest v) tr = Agent_run w master_answer_validator message tr"
  by (simp add: validate_def)

lemma validate_Member_comprehension:
  "snd (validate w message (Member COMPREHENSION_QUESTION) tr) = tr @ [(team_name agent_team, message)]"
  by (simp add: validate_def Team_run_def split: sum.splits content.splits)

lemma Agent_run_trace: "snd (Agent_run w a message tr) = tr @ [(name a, message)]"
  by (simp add: Agent_run_def)

lemma validation_try_trace:
  "snd (validation_try lib w body_decoded tr) = tr \<or>
   (\<exists>message. snd (validation_try lib w body_decoded tr) = tr @ [(name master_answer_validator, message)])"
  by (auto simp: validation_try_def validate_FromRequest Agent_run_def Let_def
           split: sum.splits json.splits content.splits prod.splits)

lemma validation_lambda_handler_cases:
  "snd (validation_lambda_handler lib w event tr) = tr \<or>
   (\<exists>body_decoded. snd (validation_lambda_handler lib w event tr) = snd (validation_try lib w body_decoded tr))"
proof (cases "event ''body''")
  case None
  then show ?thesis by (simp add: validation_lambda_handler_def)
next
  case (Some raw_body)
  show ?thesis
  proof (cases "decoded_body lib event raw_body")
    case (Inl e)
    with Some show ?thesis by (simp add: validation_lambda_handler_def)
  next
    case (Inr body_decoded)
    with Some have "snd (validation_lambda_handler lib w event tr) = snd (validation_try lib w body_decoded tr)"
      by (simp add: validation_lambda_handler_def split: prod.splits)
    then show ?thesis by blast
  qed
qed

lemma validation_lambda_handler_trace:
  "snd (validation_lambda_handler lib w event tr) = tr \<or>
   (\<exists>message. snd (validation_lambda_handler lib w event tr) = tr @ [(name master_answer_validator, message)])"
  using validation_lambda_handler_cases [of lib w event tr] validation_try_trace [of lib w _ tr]
  by metis

lemma pool_not_invoked_append:
  "\<not> evaluator_pool_invoked [(name master_answer_validator, message)]"
  by (simp add: evaluator_pool_invoked_def master_answer_validator_def agent_team_def)

lemma entry_point_never_runs_team:
  "\<not> evaluator_pool_invoked (snd (validation_lambda_handler lib w event []))"
  using validation_lambda_handler_trace [of lib w event "[]"]
  by (auto simp: evaluator_pool_invoked_def master_answer_validator_def agent_team_def)

text \<open>
  C1. Routing by question style. The style string of comprehension questions in a request does not
  reach the consensus team: \<open>validate\<close> compares the string with an enum member, the
  comparison is false, and the Final Answer Evaluator is run, as for every other value
  of a request. No request to the entry point runs the team. The team is run only when
  \<open>validate\<close> is given the enum member itself.
\<close>

theorem comprehension_string_runs_final_evaluator:
  "validate w message (FromRequest (JStr (QuestionTypeEnum_value COMPREHENSION_QUESTION))) tr
     = Agent_run w master_answer_validator message tr
   \<and> \<not> evaluator_pool_invoked
         (snd (validate w message (FromRequest (JStr (QuestionTypeEnum_value COMPREHENSION_QUESTION))) []))
   \<and> \<not> evaluator_pool_invoked (snd (validation_lambda_handler lib w event []))
   \<and> evaluator_pool_invoked (snd (validate w message (Member COMPREHENSION_QUESTION) []))"
  using entry_point_never_runs_team [of lib w event]
  by (simp add: validate_FromRequest Agent_run_trace pool_not_invoked_append validate_Member_comprehension)
    (simp add: evaluator_pool_invoked_def)

text \<open>The request with the comprehension style, run through the entry point.\<close>

lemma comprehension_request_example:
  "map fst (snd (validation_lambda_handler example_lib
       (scripted_validation_world \<lparr>is_correct = True, reason = ''Richtig.''\<rparr>)
       [''body'' \<mapsto> JStr comprehension_request_body, ''isBase64Encoded'' \<mapsto> JBool False] []))
   = [''Final Answer Evaluator'']"
  by code_simp

section \<open>The validation entry point\<close>

lemma validation_try_object:
  assumes "json_loads lib s = Inr (JObj d)"
  shows "validation_try lib w (JStr s) tr =
     (case reply w (name master_answer_validator) (length tr) (request_prompt lib d) of
        Inl e \<Rightarrow> validation_error_response e
      | Inr (Model r) \<Rightarrow>
          \<lparr>v_statusCode = 200,
           v_headers = Some [(''Access-Control-Allow-Origin'', ''*''),
                             (''Access-Control-Allow-Methods'', ''POST,OPTIONS''),
                             (''Access-Control-Allow-Headers'', ''Content-Type,Authorization'')],
           v_body = ValidationResult_json r\<rparr>
      | Inr (Text t) \<Rightarrow> validation_error_response (no_attribute ''str'' ''json'')
      | Inr NoContent \<Rightarrow> validation_error_response (no_attribute ''NoneType'' ''json''),
      tr @ [(name master_answer_validator, request_prompt lib d)])"
  using assms
  by (simp add: validation_try_def Let_def prompt_template_format validate_FromRequest Agent_run_def
        request_prompt_def split: sum.splits content.splits)

lemma validation_try_status:
  "v_statusCode (fst (validation_try lib w body_decoded tr)) = 500 \<or>
   (\<exists>r. fst (validation_try lib w body_decoded tr) =
          \<lparr>v_statusCode = 200,
           v_headers = Some [(''Access-Control-Allow-Origin'', ''*''),
                             (''Access-Control-Allow-Methods'', ''POST,OPTIONS''),
                             (''Access-Control-Allow-Headers'', ''Content-Type,Authorization'')],
           v_body = ValidationResult_json r\<rparr>
        \<and> (\<exists>message. reply w (name master_answer_validator) (length tr) message = Inr (Model r)
              \<and> snd (validation_try lib w body_decoded tr) = tr @ [(name master_answer_validator, message)]))"
  by (auto simp: validation_try_def Let_def validate_FromRequest Agent_run_def validation_error_response_def
           split: sum.splits json.splits content.splits prod.splits)

lemma validation_lambda_handler_decoded:
  assumes "event ''body'' = Some raw_body" and "decoded_body lib event raw_body = Inr body_decoded"
  shows "validation_lambda_handler lib w event tr =
           (Inr (fst (validation_try lib w body_decoded tr)), snd (validation_try lib w body_decoded tr))"
  using assms by (simp add: validation_lambda_handler_def split: prod.splits)

lemma validation_lambda_handler_status:
  assumes "fst (validation_lambda_handler lib w event tr) = Inr resp"
  shows "v_statusCode resp = 500 \<or>
         (v_statusCode resp = 200 \<and>
          (\<exists>r. v_body resp = ValidationResult_json r
             \<and> (\<exists>message. reply w (name master_answer_validator) (length tr) message = Inr (Model r)
                   \<and> snd (validation_lambda_handler lib w event tr)
                       = tr @ [(name master_answer_validator, message)])))"
proof (cases "event ''body''")
  case None
  with assms show ?thesis by (simp add: validation_lambda_handler_def)
next
  case (Some raw_body)
  show ?thesis
  proof (cases "decoded_body lib event raw_body")
    case (Inl e)
    with Some assms show ?thesis by (simp add: validation_lambda_handler_def)
  next
    case (Inr body_decoded)
    note eq = validation_lambda_handler_decoded [OF Some Inr, of w tr]
    from assms have resp: "resp = fst (validation_try lib w body_decoded tr)"
      unfolding eq by simp
    have tr_eq: "snd (validation_lambda_handler lib w event tr) = snd (validation_try lib w body_decoded tr)"
      unfolding eq by simp
    from validation_try_status [of lib w body_decoded tr] show ?thesis
      unfolding resp tr_eq by auto
  qed
qed

lemma decoded_body_plain:
  "\<not> truthy (case event ''isBase64Encoded'' of None \<Rightarrow> JBool False | Some v \<Rightarrow> v) \<Longrightarrow>
   decoded_body lib event raw_body = Inr raw_body"
  by (simp add: decoded_body_def)


lemma example_calculation_request:
  "json_loads example_lib calculation_request_body =
     Inr (JObj [(''question_text'', JStr ''Was ist 2 + 2?''), (''student_answer'', JStr ''5''),
                (''correct_answer'', JStr ''4''), (''question_style'', JStr ''Rechenfragen'')])"
  by code_simp

lemma example_calculation_prompt:
  "request_prompt example_lib
     [(''question_text'', JStr ''Was ist 2 + 2?''), (''student_answer'', JStr ''5''),
      (''correct_answer'', JStr ''4''), (''question_style'', JStr ''Rechenfragen'')]
   = validation_prompt ''Was ist 2 + 2?'' ''5'' ''4''"
  by (simp add: request_prompt_def dict_get_def py_str_def)






lemma generation_lambda_handler_total:
  "statusCode (fst (generation_lambda_handler lib w event tr)) = 200 \<or>
   (\<exists>e. fst (generation_lambda_handler lib w event tr) = generation_error_response e)"
  by (auto simp: generation_lambda_handler_def split: sum.splits prod.splits)

lemma b64decode_one_character:
  "b64decode example_lib ''a'' = Inl (Exc ''binascii.Error'' ''Invalid base64-encoded string: number of data characters (1) cannot be 1 more than a multiple of 4'')"
  by code_simp

text \<open>
  A generator answer that is a text, not a batch, is no error for the generation
  handler: the text is returned in place of the batch, with status 200.
\<close>

lemma generation_text_content_answered_200:
  "fst (generation_lambda_handler example_lib
          \<lparr>retriever_reply = (\<lambda>n p. Inr (Some example_context)),
           generator_reply = (\<lambda>g n p. Inr (Text ''Keine Fragen.'')),
           reviewer_reply = (\<lambda>n p. Inr (Some ''Review OK''))\<rparr>
          [''body'' \<mapsto> JStr generation_request_body] [])
     = \<lparr>statusCode = 200,
        headers = [(''Content-Type'', ''application/json''),
                   (''Access-Control-Allow-Origin'', ''*''),
                   (''Access-Control-Allow-Methods'', ''POST,OPTIONS''),
                   (''Access-Control-Allow-Headers'', ''Content-Type,Authorization'')],
        body = JObj [(''questions'', JStr ''Keine Fragen.'')]\<rparr>"
  by code_simp

text \<open>
  C7. Errors at the request boundary. The validation handler reads \<open>event["body"]\<close>
  and decodes base64 before its \<open>try\<close> block: for an event without a body, and for
  an event whose body is not valid base64, the exception leaves the handler and no
  response with status 500 is returned. The generation handler, which does both steps
  inside \<open>try\<close>, answers the second event with status 500.
\<close>

theorem validation_handler_raises_outside_try:
  "validation_lambda_handler lib w [''isBase64Encoded'' \<mapsto> JBool False] tr
     = (Inl (Exc ''KeyError'' (CHR 0x27 # ''body'' @ [CHR 0x27])), tr)
   \<and> validation_lambda_handler example_lib w
         [''body'' \<mapsto> JStr ''a'', ''isBase64Encoded'' \<mapsto> JBool True] tr
     = (Inl (Exc ''binascii.Error'' ''Invalid base64-encoded string: number of data characters (1) cannot be 1 more than a multiple of 4''), tr)
   \<and> generation_lambda_handler example_lib gw
         [''body'' \<mapsto> JStr ''a'', ''isBase64Encoded'' \<mapsto> JBool True] gtr
     = (\<lparr>statusCode = 500,
         headers = [(''Content-Type'', ''application/json''), (''Access-Control-Allow-Origin'', ''*'')],
         body = JObj [(''error'', JStr ''Invalid base64-encoded string: number of data characters (1) cannot be 1 more than a multiple of 4'')]\<rparr>, gtr)"
  by (simp add: validation_lambda_handler_def decoded_body_def generation_lambda_handler_def
        generation_body_def generation_error_response_def b64decode_one_character squote_def Let_def
        del: One_nat_def)

text \<open>
  C8, as the claim states it, fails: the Final Answer Evaluator may return
  \<open>is_correct = False\<close> with an empty reason, and the entry point passes the result on
  with status 200.
\<close>

theorem empty_reason_counterexample:
  "fst (validation_lambda_handler example_lib
          (scripted_validation_world \<lparr>is_correct = False, reason = []\<rparr>)
          [''body'' \<mapsto> JStr calculation_request_body, ''isBase64Encoded'' \<mapsto> JBool False] [])
     = Inr \<lparr>v_statusCode = 200,
            v_headers = Some [(''Access-Control-Allow-Origin'', ''*''),
                              (''Access-Control-Allow-Methods'', ''POST,OPTIONS''),
                              (''Access-Control-Allow-Headers'', ''Content-Type,Authorization'')],
            v_body = JObj [(''is_correct'', JBool False), (''reason'', JStr [])]\<rparr>"
  by code_simp

text \<open>
  C8, amended. The result that the agent returns is passed on unchanged. For every
  event with a body that decodes to a JSON object, whether the event carries
  \<open>isBase64Encoded\<close> or not: when the Final Answer Evaluator answers the request's
  prompt with a \<open>ValidationResult\<close>, the entry point returns status 200 with exactly its
  \<open>is_correct\<close> and its \<open>reason\<close>, whatever the reason is, after this one run. Conversely,
  for every event, a response with status 200 carries the \<open>is_correct\<close> and the \<open>reason\<close>
  of a result that the Final Answer Evaluator returned in the one run of the request.
\<close>

theorem validation_result_passed_unchanged:
  "(\<forall>raw_body s d r.
      event ''body'' = Some raw_body
      \<and> decoded_body lib event raw_body = Inr (JStr s)
      \<and> json_loads lib s = Inr (JObj d)
      \<and> reply w (name master_answer_validator) (length tr) (request_prompt lib d) = Inr (Model r) \<longrightarrow>
      validation_lambda_handler lib w event tr =
        (Inr \<lparr>v_statusCode = 200,
            v_headers = Some [(''Access-Control-Allow-Origin'', ''*''),
                              (''Access-Control-Allow-Methods'', ''POST,OPTIONS''),
                              (''Access-Control-Allow-Headers'', ''Content-Type,Authorization'')],
            v_body = JObj [(''is_correct'', JBool (is_correct r)), (''reason'', JStr (reason r))]\<rparr>,
         tr @ [(name master_answer_validator, request_prompt lib d)]))
   \<and> (\<forall>resp. fst (validation_lambda_handler lib w event tr) = Inr resp \<and> v_statusCode resp = 200 \<longrightarrow>
         (\<exists>r message.
             snd (validation_lambda_handler lib w event tr) = tr @ [(name master_answer_validator, message)]
           \<and> reply w (name master_answer_validator) (length tr) message = Inr (Model r)
           \<and> v_body resp = JObj [(''is_correct'', JBool (is_correct r)), (''reason'', JStr (reason r))]))"
proof (rule conjI)
  show "\<forall>raw_body s d r.
      event ''body'' = Some raw_body
      \<and> decoded_body lib event raw_body = Inr (JStr s)
      \<and> json_loads lib s = Inr (JObj d)
      \<and> reply w (name master_answer_validator) (length tr) (request_prompt lib d) = Inr (Model r) \<longrightarrow>
      validation_lambda_handler lib w event tr =
        (Inr \<lparr>v_statusCode = 200,
            v_headers = Some [(''Access-Control-Allow-Origin'', ''*''),
                              (''Access-Control-Allow-Methods'', ''POST,OPTIONS''),
                              (''Access-Control-Allow-Headers'', ''Content-Type,Authorization'')],
            v_body = JObj [(''is_correct'', JBool (is_correct r)), (''reason'', JStr (reason r))]\<rparr>,
         tr @ [(name master_answer_validator, request_prompt lib d)])"
  proof (intro allI impI)
    fix raw_body s d r
    assume a: "event ''body'' = Some raw_body
      \<and> decoded_body lib event raw_body = Inr (JStr s)
      \<and> json_loads lib s = Inr (JObj d)
      \<and> reply w (name master_answer_validator) (length tr) (request_prompt lib d) = Inr (Model r)"
    then have b: "event ''body'' = Some raw_body" and dec: "decoded_body lib event raw_body = Inr (JStr s)"
      and obj: "json_loads lib s = Inr (JObj d)"
      and rep: "reply w (name master_answer_validator) (length tr) (request_prompt lib d) = Inr (Model r)"
      by simp_all
    show "validation_lambda_handler lib w event tr =
        (Inr \<lparr>v_statusCode = 200,
            v_headers = Some [(''Access-Control-Allow-Origin'', ''*''),
                              (''Access-Control-Allow-Methods'', ''POST,OPTIONS''),
                              (''Access-Control-Allow-Headers'', ''Content-Type,Authorization'')],
            v_body = JObj [(''is_correct'', JBool (is_correct r)), (''reason'', JStr (reason r))]\<rparr>,
         tr @ [(name master_answer_validator, request_prompt lib d)])"
      unfolding validation_lambda_handler_decoded [OF b dec] validation_try_object [OF obj] rep
      by (simp add: ValidationResult_json_def)
  qed
next
  show "\<forall>resp. fst (validation_lambda_handler lib w event tr) = Inr resp \<and> v_statusCode resp = 200 \<longrightarrow>
         (\<exists>r message.
             snd (validation_lambda_handler lib w event tr) = tr @ [(name master_answer_validator, message)]
           \<and> reply w (name master_answer_validator) (length tr) message = Inr (Model r)
           \<and> v_body resp = JObj [(''is_correct'', JBool (is_correct r)), (''reason'', JStr (reason r))])"
  proof (intro allI impI)
    fix resp
    assume a: "fst (validation_lambda_handler lib w event tr) = Inr resp \<and> v_statusCode resp = 200"
    from validation_lambda_handler_status [OF conjunct1 [OF a]] conjunct2 [OF a]
    obtain r message where "v_body resp = ValidationResult_json r"
      and "reply w (name master_answer_validator) (length tr) message = Inr (Model r)"
      and "snd (validation_lambda_handler lib w event tr) = tr @ [(name master_answer_validator, message)]"
      by auto
    then show "\<exists>r message.
             snd (validation_lambda_handler lib w event tr) = tr @ [(name master_answer_validator, message)]
           \<and> reply w (name master_answer_validator) (length tr) message = Inr (Model r)
           \<and> v_body resp = JObj [(''is_correct'', JBool (is_correct r)), (''reason'', JStr (reason r))]"
      by (auto simp: ValidationResult_json_def)
  qed
qed

theorem validation_result_passed_unchanged_witness:
  "[''body'' \<mapsto> JStr calculation_request_body, ''isBase64Encoded'' \<mapsto> JBool False] ''isBase64Encoded''
     = Some (JBool False)
   \<and> decoded_body example_lib
        [''body'' \<mapsto> JStr calculation_request_body, ''isBase64Encoded'' \<mapsto> JBool False]
        (JStr calculation_request_body)
      = Inr (JStr calculation_request_body)
   \<and> json_loads example_lib calculation_request_body =
        Inr (JObj [(''question_text'', JStr ''Was ist 2 + 2?''), (''student_answer'', JStr ''5''),
                   (''correct_answer'', JStr ''4''), (''question_style'', JStr ''Rechenfragen'')])
   \<and> reply (scripted_validation_world \<lparr>is_correct = False, reason = ''Die Summe ist 4.''\<rparr>)
        (name master_answer_validator) 0 (validation_prompt ''Was ist 2 + 2?'' ''5'' ''4'')
      = Inr (Model \<lparr>is_correct = False, reason = ''Die Summe ist 4.''\<rparr>)
   \<and> validation_lambda_handler example_lib
        (scripted_validation_world \<lparr>is_correct = False, reason = ''Die Summe ist 4.''\<rparr>)
        [''body'' \<mapsto> JStr calculation_request_body, ''isBase64Encoded'' \<mapsto> JBool False] []
     = (Inr \<lparr>v_statusCode = 200,
            v_headers = Some [(''Access-Control-Allow-Origin'', ''*''),
                              (''Access-Control-Allow-Methods'', ''POST,OPTIONS''),
                              (''Access-Control-Allow-Headers'', ''Content-Type,Authorization'')],
            v_body = JObj [(''is_correct'', JBool False), (''reason'', JStr ''Die Summe ist 4.'')]\<rparr>,
        [(''Final Answer Evaluator'', validation_prompt ''Was ist 2 + 2?'' ''5'' ''4'')])"
proof -
  let ?event = "[''body'' \<mapsto> JStr calculation_request_body, ''isBase64Encoded'' \<mapsto> JBool False]"
  let ?d = "[(''question_text'', JStr ''Was ist 2 + 2?''), (''student_answer'', JStr ''5''),
             (''correct_answer'', JStr ''4''), (''question_style'', JStr ''Rechenfragen'')]"
  let ?r = "\<lparr>is_correct = False, reason = ''Die Summe ist 4.''\<rparr>"
  let ?w = "scripted_validation_world ?r"
  have key: "?event ''isBase64Encoded'' = Some (JBool False)"
    by simp
  have body': "?event ''body'' = Some (JStr calculation_request_body)"
    by simp
  have decoded: "decoded_body example_lib ?event (JStr calculation_request_body)
                 = Inr (JStr calculation_request_body)"
    by (simp add: decoded_body_def)
  have rep0: "reply ?w (name master_answer_validator) 0 (validation_prompt ''Was ist 2 + 2?'' ''5'' ''4'')
              = Inr (Model ?r)"
    by (simp add: scripted_validation_world_def)
  have rep: "reply ?w (name master_answer_validator) (length ([] :: validation_trace))
               (request_prompt example_lib ?d) = Inr (Model ?r)"
    by (simp add: scripted_validation_world_def)
  from conjunct1 [OF validation_result_passed_unchanged [of ?event example_lib ?w "[]"]]
    body' decoded example_calculation_request rep
  have "validation_lambda_handler example_lib ?w ?event [] =
        (Inr \<lparr>v_statusCode = 200,
            v_headers = Some [(''Access-Control-Allow-Origin'', ''*''),
                              (''Access-Control-Allow-Methods'', ''POST,OPTIONS''),
                              (''Access-Control-Allow-Headers'', ''Content-Type,Authorization'')],
            v_body = JObj [(''is_correct'', JBool (is_correct ?r)), (''reason'', JStr (reason ?r))]\<rparr>,
         [] @ [(name master_answer_validator, request_prompt example_lib ?d)])"
    by blast
  then have run: "validation_lambda_handler example_lib ?w ?event []
     = (Inr \<lparr>v_statusCode = 200,
            v_headers = Some [(''Access-Control-Allow-Origin'', ''*''),
                              (''Access-Control-Allow-Methods'', ''POST,OPTIONS''),
                              (''Access-Control-Allow-Headers'', ''Content-Type,Authorization'')],
            v_body = JObj [(''is_correct'', JBool False), (''reason'', JStr ''Die Summe ist 4.'')]\<rparr>,
        [(''Final Answer Evaluator'', validation_prompt ''Was ist 2 + 2?'' ''5'' ''4'')])"
    by (simp add: example_calculation_prompt master_answer_validator_def)
  show ?thesis
    by (intro conjI key decoded example_calculation_request rep0 run)
qed
section \<open>The generate-review loop\<close>

lemma generator_format:
  "is_generator g \<Longrightarrow> py_format (instructions g) kw = Inr (instructions g)"
  using comprehension_no_braces calculation_no_braces
  by (auto simp: is_generator_def py_format_def fmt_no_braces)

lemma retriever_format:
  "py_format (instructions KNOWLEDGE_RETRIEVER) [(''query'', q)] = Inr (retriever_prompt q)"
  by (simp add: py_format_def RETRIEVER_INSTRUCTIONS_def retriever_prompt_def nl_def backtick_def
        u_ue_def u_hellip_def)

lemma denoted_dumped: "denoted (dumped lib c) = content_value c"
  by (cases c) (simp_all add: dumped_def content_value_def model_dump_json_def json_dumps_def)

lemma run_rounds_Suc:
  assumes "is_generator (generator self)"
  shows "run_rounds lib w self num_qas difficulty audience context (Suc k) feedback qa tr =
    (case generator_reply w (generator self) (length tr) (generator_prompt (generator self) feedback) of
       Inl e \<Rightarrow> (Inl e, tr @ [Call (generator self) (generator_prompt (generator self) feedback) (Raised e)])
     | Inr c \<Rightarrow>
        (case reviewer_reply w (Suc (length tr)) (review_prompt lib c difficulty audience) of
           Inl e \<Rightarrow> (Inl e, tr @ [Call (generator self) (generator_prompt (generator self) feedback) (Generated c),
                                    Call QUESTION_REVIEWER (review_prompt lib c difficulty audience) (Raised e)])
         | Inr None \<Rightarrow>
             (Inl (Exc ''TypeError'' ''argument of type 'NoneType' is not iterable''),
              tr @ [Call (generator self) (generator_prompt (generator self) feedback) (Generated c),
                    Call QUESTION_REVIEWER (review_prompt lib c difficulty audience) (Reviewed None)])
         | Inr (Some fb) \<Rightarrow>
             if str_contains ''Review OK'' fb then
               (Inr (content_value c),
                tr @ [Call (generator self) (generator_prompt (generator self) feedback) (Generated c),
                      Call QUESTION_REVIEWER (review_prompt lib c difficulty audience) (Reviewed (Some fb))])
             else run_rounds lib w self num_qas difficulty audience context k (Some fb) (Some (dumped lib c))
                    (tr @ [Call (generator self) (generator_prompt (generator self) feedback) (Generated c),
                           Call QUESTION_REVIEWER (review_prompt lib c difficulty audience) (Reviewed (Some fb))])))"
proof -
  let ?g = "generator self"
  have fmtd: "py_format (instructions ?g) kw = Inr (instructions ?g)" for kw
    using assms by (rule generator_format)
  have gp: "(case feedback of
               None \<Rightarrow> instructions ?g
             | Some fb \<Rightarrow> if fb \<noteq> [] then instructions ?g @ nl @ ''Vorheriges Feedback:'' @ nl @ fb @ nl
                          else instructions ?g) = generator_prompt ?g feedback"
    by (cases feedback) (simp_all add: generator_prompt_def)
  have dump: "(case c of
                 Model m \<Rightarrow> model_dump_json lib m
               | Text s \<Rightarrow> json_dumps lib (JStr s)
               | NoContent \<Rightarrow> json_dumps lib JNull) = dumped lib c" for c
    by (simp add: dumped_def)
  have rp: "''Bewerte folgende Frage-Antwort-Paare:'' @ nl @ rendered (dumped lib c)
              @ nl @ ''Schwierigkeitsgrad: '' @ py_str lib difficulty
              @ nl @ ''Zielgruppe: '' @ py_str lib audience = review_prompt lib c difficulty audience" for c
    by (simp add: review_prompt_def)
  have unfolded: "run_rounds lib w self num_qas difficulty audience context (Suc k) feedback qa tr =
     (case generator_run w ?g (generator_prompt ?g feedback) tr of
        (Inl e, tr1) \<Rightarrow> (Inl e, tr1)
      | (Inr c, tr1) \<Rightarrow>
          (case reviewer_run w (review_prompt lib c difficulty audience) tr1 of
             (Inl e, tr2) \<Rightarrow> (Inl e, tr2)
           | (Inr None, tr2) \<Rightarrow> (Inl (Exc ''TypeError'' ''argument of type 'NoneType' is not iterable''), tr2)
           | (Inr (Some fb), tr2) \<Rightarrow>
               if str_contains ''Review OK'' fb then (loads_own (dumped lib c), tr2)
               else run_rounds lib w self num_qas difficulty audience context k (Some fb) (Some (dumped lib c)) tr2))"
    unfolding run_rounds.simps fmtd sum.case Let_def gp dump rp ..
  show ?thesis
  proof (cases "generator_reply w ?g (length tr) (generator_prompt ?g feedback)")
    case (Inl e)
    then show ?thesis
      unfolding unfolded by (simp add: generator_run_def)
  next
    case gen: (Inr c)
    show ?thesis
    proof (cases "reviewer_reply w (Suc (length tr)) (review_prompt lib c difficulty audience)")
      case (Inl e)
      with gen show ?thesis
        unfolding unfolded by (simp add: generator_run_def reviewer_run_def)
    next
      case rev: (Inr r)
      show ?thesis
      proof (cases r)
        case None
        with gen rev show ?thesis
          unfolding unfolded by (simp add: generator_run_def reviewer_run_def)
      next
        case (Some fb)
        with gen rev show ?thesis
          unfolding unfolded
          by (simp add: generator_run_def reviewer_run_def loads_own_def denoted_dumped)
      qed
    qed
  qed
qed


lemma count_calls_simps [simp]:
  "count_calls P [] = 0"
  "count_calls P (c # cs) = (if P (callee c) then Suc (count_calls P cs) else count_calls P cs)"
  "count_calls P (xs @ ys) = count_calls P xs + count_calls P ys"
  by (simp_all add: count_calls_def)

lemma last_generated_append:
  "last_generated (xs @ ys) =
     (case last_generated ys of Some c \<Rightarrow> Some c | None \<Rightarrow> last_generated xs)"
  by (induction xs) (simp_all split: option.splits)

lemma approving_simps [simp]:
  "approving (Call a p (Reviewed (Some fb))) = str_contains ''Review OK'' fb"
  "approving (Call a p (Reviewed None)) = False"
  "approving (Call a p (Raised e)) = False"
  "approving (Call a p (Generated c)) = False"
  "approving (Call a p (Retrieved r)) = False"
  by (simp_all add: approving_def)

lemma failing_simps [simp]:
  "failing (Call a p (Reviewed (Some fb))) = False"
  "failing (Call a p (Reviewed None)) = True"
  "failing (Call a p (Raised e)) = True"
  "failing (Call a p (Generated c)) = False"
  "failing (Call a p (Retrieved r)) = False"
  by (simp_all add: failing_def)

lemma reviewer_simps [simp]:
  "\<not> is_generator QUESTION_REVIEWER" "is_reviewer QUESTION_REVIEWER"
  "\<not> is_generator KNOWLEDGE_RETRIEVER" "\<not> is_reviewer KNOWLEDGE_RETRIEVER"
  by (simp_all add: is_generator_def is_reviewer_def)

lemma is_generator_not_reviewer: "is_generator g \<Longrightarrow> \<not> is_reviewer g"
  by (auto simp: is_generator_def is_reviewer_def)

lemma is_generator_not_retriever: "is_generator g \<Longrightarrow> g \<noteq> KNOWLEDGE_RETRIEVER"
  by (auto simp: is_generator_def)

lemma reply_outcome_generator:
  "is_generator g \<Longrightarrow>
   reply_outcome w g n p = (case generator_reply w g n p of Inl e \<Rightarrow> Raised e | Inr c \<Rightarrow> Generated c)"
  by (auto simp: is_generator_def reply_outcome_def)

lemma reply_outcome_reviewer:
  "reply_outcome w QUESTION_REVIEWER n p =
     (case reviewer_reply w n p of Inl e \<Rightarrow> Raised e | Inr c \<Rightarrow> Reviewed c)"
  by (simp add: reply_outcome_def)

lemma reply_outcome_retriever:
  "reply_outcome w KNOWLEDGE_RETRIEVER n p =
     (case retriever_reply w n p of Inl e \<Rightarrow> Raised e | Inr c \<Rightarrow> Retrieved c)"
  by (simp add: reply_outcome_def)

lemma run_rounds_0:
  "run_rounds lib w self num_qas difficulty audience context 0 feedback qa tr =
     (case qa of
        None \<Rightarrow> Inl (Exc ''UnboundLocalError''
                    ''cannot access local variable 'qa_pairs_json' where it is not associated with a value'')
      | Some t \<Rightarrow> Inr (denoted t), tr)"
  by (simp add: loads_own_def split: option.splits)

lemma run_rounds_trace:
  assumes g: "is_generator (generator self)"
  shows "\<exists>ext. snd (run_rounds lib w self num_qas difficulty audience context n feedback qa tr) = tr @ ext
     \<and> count_calls is_generator ext \<le> n
     \<and> count_calls is_reviewer ext \<le> n
     \<and> (\<forall>c\<in>set (butlast ext). \<not> approving c \<and> \<not> failing c)
     \<and> ((\<exists>v. fst (run_rounds lib w self num_qas difficulty audience context n feedback qa tr) = Inr v)
          \<or> (\<forall>c\<in>set ext. \<not> failing c \<and> \<not> approving c) \<longrightarrow>
         fst (run_rounds lib w self num_qas difficulty audience context n feedback qa tr) =
           (case last_generated ext of
              Some c \<Rightarrow> Inr (content_value c)
            | None \<Rightarrow> fst (run_rounds lib w self num_qas difficulty audience context 0 feedback qa tr)))
     \<and> (ext \<noteq> [] \<and> approving (last ext) \<longrightarrow>
         (\<exists>v. fst (run_rounds lib w self num_qas difficulty audience context n feedback qa tr) = Inr v))
     \<and> ((\<forall>c\<in>set ext. \<not> failing c \<and> \<not> approving c) \<longrightarrow>
         count_calls is_generator ext = n \<and> count_calls is_reviewer ext = n)
     \<and> (((\<exists>v. fst (run_rounds lib w self num_qas difficulty audience context n feedback qa tr) = Inr v)
           \<or> (\<forall>c\<in>set ext. \<not> failing c \<and> \<not> approving c)) \<and> 0 < n \<longrightarrow>
         last_generated ext \<noteq> None)
     \<and> (\<forall>c\<in>set ext. callee c \<noteq> KNOWLEDGE_RETRIEVER)
     \<and> logged_by w (length tr) ext
     \<and> count_calls is_reviewer ext \<le> count_calls is_generator ext"
proof (induction n arbitrary: feedback qa tr)
  case 0
  show ?case
    by (rule exI [of _ "[]"]) (simp add: run_rounds_0 del: run_rounds.simps)
next
  case (Suc k)
  let ?g = "generator self"
  let ?gp = "generator_prompt ?g feedback"
  note nr = is_generator_not_reviewer [OF g] is_generator_not_retriever [OF g]
  show ?case
  proof (cases "generator_reply w ?g (length tr) ?gp")
    case (Inl e)
    show ?thesis
      by (rule exI [of _ "[Call ?g ?gp (Raised e)]"])
        (simp add: run_rounds_Suc [OF g] Inl g nr reply_outcome_generator [OF g] del: run_rounds.simps)
  next
    case gen: (Inr c)
    let ?rp = "review_prompt lib c difficulty audience"
    let ?G = "Call ?g ?gp (Generated c)"
    show ?thesis
    proof (cases "reviewer_reply w (Suc (length tr)) ?rp")
      case (Inl e)
      show ?thesis
        by (rule exI [of _ "[?G, Call QUESTION_REVIEWER ?rp (Raised e)]"])
          (simp add: run_rounds_Suc [OF g] gen Inl g nr reply_outcome_generator [OF g] reply_outcome_reviewer
             del: run_rounds.simps)
    next
      case rev: (Inr r)
      show ?thesis
      proof (cases r)
        case None
        show ?thesis
          by (rule exI [of _ "[?G, Call QUESTION_REVIEWER ?rp (Reviewed None)]"])
            (simp add: run_rounds_Suc [OF g] gen rev None g nr reply_outcome_generator [OF g] reply_outcome_reviewer
               del: run_rounds.simps)
      next
        case (Some fb)
        let ?R = "Call QUESTION_REVIEWER ?rp (Reviewed (Some fb))"
        show ?thesis
        proof (cases "str_contains ''Review OK'' fb")
          case True
          show ?thesis
            by (rule exI [of _ "[?G, ?R]"])
              (simp add: run_rounds_Suc [OF g] gen rev Some True g nr reply_outcome_generator [OF g]
                 reply_outcome_reviewer del: run_rounds.simps)
        next
          case False
          let ?next = "run_rounds lib w self num_qas difficulty audience context k (Some fb) (Some (dumped lib c)) (tr @ [?G, ?R])"
          have step: "run_rounds lib w self num_qas difficulty audience context (Suc k) feedback qa tr = ?next"
            by (simp add: run_rounds_Suc [OF g] gen rev Some False del: run_rounds.simps)
          from Suc.IH [of "Some fb" "Some (dumped lib c)" "tr @ [?G, ?R]"]
          obtain ext where ext: "snd ?next = (tr @ [?G, ?R]) @ ext"
            and cg: "count_calls is_generator ext \<le> k"
            and cr: "count_calls is_reviewer ext \<le> k"
            and inner: "\<forall>c\<in>set (butlast ext). \<not> approving c \<and> \<not> failing c"
            and res: "(\<exists>v. fst ?next = Inr v) \<or> (\<forall>c\<in>set ext. \<not> failing c \<and> \<not> approving c) \<longrightarrow>
                fst ?next = (case last_generated ext of
                               Some c \<Rightarrow> Inr (content_value c)
                             | None \<Rightarrow> fst (run_rounds lib w self num_qas difficulty audience context 0
                                              (Some fb) (Some (dumped lib c)) (tr @ [?G, ?R])))"
            and app: "ext \<noteq> [] \<and> approving (last ext) \<longrightarrow> (\<exists>v. fst ?next = Inr v)"
            and full: "(\<forall>c\<in>set ext. \<not> failing c \<and> \<not> approving c) \<longrightarrow>
                count_calls is_generator ext = k \<and> count_calls is_reviewer ext = k"
            and others: "\<forall>c\<in>set ext. callee c \<noteq> KNOWLEDGE_RETRIEVER"
            and logged: "logged_by w (length (tr @ [?G, ?R])) ext"
            and pairs: "count_calls is_reviewer ext \<le> count_calls is_generator ext"
            by blast
          have bl: "\<forall>c\<in>set (butlast ([?G, ?R] @ ext)). \<not> approving c \<and> \<not> failing c"
            using inner False by (cases "ext = []") (simp_all add: butlast_append)
          have lg: "last_generated ([?G, ?R] @ ext) =
                      (case last_generated ext of Some c' \<Rightarrow> Some c' | None \<Rightarrow> Some c)"
            by (simp split: option.splits)
          have base: "fst (run_rounds lib w self num_qas difficulty audience context 0
                             (Some fb) (Some (dumped lib c)) (tr @ [?G, ?R])) = Inr (content_value c)"
            by (simp add: denoted_dumped loads_own_def)
          have res': "(\<exists>v. fst ?next = Inr v) \<or> (\<forall>c\<in>set ([?G, ?R] @ ext). \<not> failing c \<and> \<not> approving c) \<longrightarrow>
                fst ?next = (case last_generated ([?G, ?R] @ ext) of
                               Some c \<Rightarrow> Inr (content_value c)
                             | None \<Rightarrow> fst (run_rounds lib w self num_qas difficulty audience context 0 feedback qa tr))"
          proof
            assume "(\<exists>v. fst ?next = Inr v) \<or> (\<forall>c\<in>set ([?G, ?R] @ ext). \<not> failing c \<and> \<not> approving c)"
            then have "(\<exists>v. fst ?next = Inr v) \<or> (\<forall>c\<in>set ext. \<not> failing c \<and> \<not> approving c)"
              by (rule disjE) (simp_all del: run_rounds.simps)
            with res have "fst ?next = (case last_generated ext of
                               Some c \<Rightarrow> Inr (content_value c)
                             | None \<Rightarrow> fst (run_rounds lib w self num_qas difficulty audience context 0
                                              (Some fb) (Some (dumped lib c)) (tr @ [?G, ?R])))"
              by (rule mp)
            then show "fst ?next = (case last_generated ([?G, ?R] @ ext) of
                               Some c \<Rightarrow> Inr (content_value c)
                             | None \<Rightarrow> fst (run_rounds lib w self num_qas difficulty audience context 0 feedback qa tr))"
              unfolding lg base by (cases "last_generated ext") simp_all
          qed
          have app': "[?G, ?R] @ ext \<noteq> [] \<and> approving (last ([?G, ?R] @ ext)) \<longrightarrow> (\<exists>v. fst ?next = Inr v)"
            using app False by (cases "ext = []") simp_all
          have full': "(\<forall>c\<in>set ([?G, ?R] @ ext). \<not> failing c \<and> \<not> approving c) \<longrightarrow>
                count_calls is_generator ([?G, ?R] @ ext) = Suc k \<and> count_calls is_reviewer ([?G, ?R] @ ext) = Suc k"
            using full g nr by simp
          have cg': "count_calls is_generator ([?G, ?R] @ ext) \<le> Suc k"
            using cg g by simp
          have cr': "count_calls is_reviewer ([?G, ?R] @ ext) \<le> Suc k"
            using cr nr by simp
          have ext': "snd ?next = tr @ [?G, ?R] @ ext"
            using ext by simp
          have some: "((\<exists>v. fst ?next = Inr v) \<or> (\<forall>c\<in>set ([?G, ?R] @ ext). \<not> failing c \<and> \<not> approving c))
                \<and> 0 < Suc k \<longrightarrow> last_generated ([?G, ?R] @ ext) \<noteq> None"
            unfolding lg by (simp split: option.splits)
          have others': "\<forall>c\<in>set ([?G, ?R] @ ext). callee c \<noteq> KNOWLEDGE_RETRIEVER"
            using others g by auto
          have logged': "logged_by w (length tr) ([?G, ?R] @ ext)"
            using logged gen rev Some by (simp add: reply_outcome_generator [OF g] reply_outcome_reviewer)
          have pairs': "count_calls is_reviewer ([?G, ?R] @ ext) \<le> count_calls is_generator ([?G, ?R] @ ext)"
            using pairs g nr by simp
          show ?thesis
            unfolding step
            by (rule exI [of _ "[?G, ?R] @ ext"])
              (intro conjI ext' cg' cr' bl res' app' full' some others' logged' pairs')
        qed
      qed
    qed
  qed
qed

section \<open>A run of the workflow\<close>

lemma QAWorkflow_run_unfold:
  "QAWorkflow_run lib w self subjects keywords num_qas difficulty audience tr =
     (case retriever_reply w (length tr)
             (retriever_prompt (search_query lib subjects keywords)) of
        Inl e \<Rightarrow>
          (Inl e, tr @ [Call KNOWLEDGE_RETRIEVER
                          (retriever_prompt (search_query lib subjects keywords))
                          (Raised e)])
      | Inr context \<Rightarrow>
          run_rounds lib w self num_qas difficulty audience context MAX_ROUNDS None None
            (tr @ [Call KNOWLEDGE_RETRIEVER
                     (retriever_prompt (search_query lib subjects keywords))
                     (Retrieved context)]))"
  unfolding QAWorkflow_run_def Let_def search_query_def [symmetric] retriever_format retriever_run_def
  by (simp split: sum.splits)

lemma MAX_ROUNDS_pos: "0 < MAX_ROUNDS"
  by (simp add: MAX_ROUNDS_def)

lemma QAWorkflow_run_trace:
  assumes g: "is_generator (generator self)"
  shows "\<exists>r ext. snd (QAWorkflow_run lib w self subjects keywords num_qas difficulty audience tr)
                  = tr @ Call KNOWLEDGE_RETRIEVER
                           (retriever_prompt (search_query lib subjects keywords)) r # ext
     \<and> ((\<exists>e. r = Raised e) \<or> (\<exists>x. r = Retrieved x))
     \<and> (\<forall>c\<in>set ext. callee c \<noteq> KNOWLEDGE_RETRIEVER)
     \<and> count_calls is_generator ext \<le> MAX_ROUNDS
     \<and> count_calls is_reviewer ext \<le> MAX_ROUNDS
     \<and> (\<forall>c\<in>set (butlast (Call KNOWLEDGE_RETRIEVER
                           (retriever_prompt (search_query lib subjects keywords)) r # ext)).
           \<not> approving c \<and> \<not> failing c)
     \<and> ((\<exists>v. fst (QAWorkflow_run lib w self subjects keywords num_qas difficulty audience tr) = Inr v)
          \<or> (\<not> failing (Call KNOWLEDGE_RETRIEVER
                           (retriever_prompt (search_query lib subjects keywords)) r)
              \<and> (\<forall>c\<in>set ext. \<not> failing c \<and> \<not> approving c)) \<longrightarrow>
         count_calls is_generator ext \<le> MAX_ROUNDS
         \<and> (\<exists>c. last_generated ext = Some c
               \<and> fst (QAWorkflow_run lib w self subjects keywords num_qas difficulty audience tr)
                   = Inr (content_value c)))
     \<and> (ext \<noteq> [] \<and> approving (last ext) \<longrightarrow>
         (\<exists>v. fst (QAWorkflow_run lib w self subjects keywords num_qas difficulty audience tr) = Inr v))
     \<and> (\<not> failing (Call KNOWLEDGE_RETRIEVER
                           (retriever_prompt (search_query lib subjects keywords)) r)
          \<and> (\<forall>c\<in>set ext. \<not> failing c \<and> \<not> approving c) \<longrightarrow>
         count_calls is_generator ext = MAX_ROUNDS \<and> count_calls is_reviewer ext = MAX_ROUNDS)
     \<and> logged_by w (length tr) (Call KNOWLEDGE_RETRIEVER
                           (retriever_prompt (search_query lib subjects keywords)) r # ext)
     \<and> count_calls is_reviewer ext \<le> count_calls is_generator ext"
proof -
  let ?rp = "retriever_prompt (search_query lib subjects keywords)"
  show ?thesis
  proof (cases "retriever_reply w (length tr) ?rp")
    case (Inl e)
    show ?thesis
      by (rule exI [of _ "Raised e"], rule exI [of _ "[]"])
        (simp add: QAWorkflow_run_unfold Inl reply_outcome_retriever)
  next
    case (Inr ctx)
    let ?tr1 = "tr @ [Call KNOWLEDGE_RETRIEVER ?rp (Retrieved ctx)]"
    let ?run = "run_rounds lib w self num_qas difficulty audience ctx MAX_ROUNDS None None ?tr1"
    have run: "QAWorkflow_run lib w self subjects keywords num_qas difficulty audience tr = ?run"
      by (simp add: QAWorkflow_run_unfold Inr)
    from run_rounds_trace [OF g, of lib w num_qas difficulty audience ctx MAX_ROUNDS None None ?tr1]
    obtain ext where ext: "snd ?run = ?tr1 @ ext"
      and cg: "count_calls is_generator ext \<le> MAX_ROUNDS"
      and cr: "count_calls is_reviewer ext \<le> MAX_ROUNDS"
      and inner: "\<forall>c\<in>set (butlast ext). \<not> approving c \<and> \<not> failing c"
      and res: "(\<exists>v. fst ?run = Inr v) \<or> (\<forall>c\<in>set ext. \<not> failing c \<and> \<not> approving c) \<longrightarrow>
                fst ?run = (case last_generated ext of
                               Some c \<Rightarrow> Inr (content_value c)
                             | None \<Rightarrow> fst (run_rounds lib w self num_qas difficulty audience ctx 0 None None ?tr1))"
      and app: "ext \<noteq> [] \<and> approving (last ext) \<longrightarrow> (\<exists>v. fst ?run = Inr v)"
      and full: "(\<forall>c\<in>set ext. \<not> failing c \<and> \<not> approving c) \<longrightarrow>
                count_calls is_generator ext = MAX_ROUNDS \<and> count_calls is_reviewer ext = MAX_ROUNDS"
      and some: "((\<exists>v. fst ?run = Inr v) \<or> (\<forall>c\<in>set ext. \<not> failing c \<and> \<not> approving c)) \<and> 0 < MAX_ROUNDS \<longrightarrow>
                last_generated ext \<noteq> None"
      and others: "\<forall>c\<in>set ext. callee c \<noteq> KNOWLEDGE_RETRIEVER"
      and logged: "logged_by w (length ?tr1) ext"
      and pairs: "count_calls is_reviewer ext \<le> count_calls is_generator ext"
      by blast
    have logged': "logged_by w (length tr) (Call KNOWLEDGE_RETRIEVER ?rp (Retrieved ctx) # ext)"
      using logged Inr by (simp add: reply_outcome_retriever)
    have ext': "snd ?run = tr @ Call KNOWLEDGE_RETRIEVER ?rp (Retrieved ctx) # ext"
      using ext by simp
    have bl: "\<forall>c\<in>set (butlast (Call KNOWLEDGE_RETRIEVER ?rp (Retrieved ctx) # ext)). \<not> approving c \<and> \<not> failing c"
      using inner by simp
    have res': "(\<exists>v. fst ?run = Inr v)
          \<or> (\<not> failing (Call KNOWLEDGE_RETRIEVER ?rp (Retrieved ctx))
              \<and> (\<forall>c\<in>set ext. \<not> failing c \<and> \<not> approving c)) \<longrightarrow>
         count_calls is_generator ext \<le> MAX_ROUNDS
         \<and> (\<exists>c. last_generated ext = Some c \<and> fst ?run = Inr (content_value c))"
    proof
      assume "(\<exists>v. fst ?run = Inr v)
          \<or> (\<not> failing (Call KNOWLEDGE_RETRIEVER ?rp (Retrieved ctx))
              \<and> (\<forall>c\<in>set ext. \<not> failing c \<and> \<not> approving c))"
      then have prem: "(\<exists>v. fst ?run = Inr v) \<or> (\<forall>c\<in>set ext. \<not> failing c \<and> \<not> approving c)"
        by (rule disjE) (simp_all del: run_rounds.simps)
      with some MAX_ROUNDS_pos obtain c where c: "last_generated ext = Some c"
        by blast
      from res prem have "fst ?run = (case last_generated ext of
                               Some c \<Rightarrow> Inr (content_value c)
                             | None \<Rightarrow> fst (run_rounds lib w self num_qas difficulty audience ctx 0 None None ?tr1))"
        by (rule mp)
      with c have "fst ?run = Inr (content_value c)"
        by simp
      with c cg show "count_calls is_generator ext \<le> MAX_ROUNDS
         \<and> (\<exists>c. last_generated ext = Some c \<and> fst ?run = Inr (content_value c))"
        by blast
    qed
    have full': "\<not> failing (Call KNOWLEDGE_RETRIEVER ?rp (Retrieved ctx))
          \<and> (\<forall>c\<in>set ext. \<not> failing c \<and> \<not> approving c) \<longrightarrow>
         count_calls is_generator ext = MAX_ROUNDS \<and> count_calls is_reviewer ext = MAX_ROUNDS"
      using full by simp
    show ?thesis
      unfolding run
      by (rule exI [of _ "Retrieved ctx"], rule exI [of _ ext])
        (intro conjI ext' others cg cr bl res' app full' disjI2 exI [of _ ctx] refl logged' pairs)
  qed
qed


lemma run_rounds_context:
  assumes g: "is_generator (generator self)"
  shows "run_rounds lib w self num_qas difficulty audience context n feedback qa tr
         = run_rounds lib w self num_qas difficulty audience context' n feedback qa tr"
proof (induction n arbitrary: feedback qa tr)
  case 0
  show ?case by (simp only: run_rounds_0)
next
  case (Suc k)
  show ?case
    unfolding run_rounds_Suc [OF g]
    by (simp only: Suc.IH)
qed


text \<open>
  One round, read off the world: when the retriever, the generator and the reviewer
  answer, the run is the three calls in this order, each with the world's answer, and it
  returns the generator's content whether the review approves or not.
\<close>

lemma QAWorkflow_run_round:
  assumes g: "is_generator (generator self)"
    and ret: "retriever_reply w (length tr) (retriever_prompt (search_query lib subjects keywords)) = Inr ctx"
    and gen: "generator_reply w (generator self) (Suc (length tr)) (generator_prompt (generator self) None) = Inr c"
    and rev: "reviewer_reply w (Suc (Suc (length tr))) (review_prompt lib c difficulty audience) = Inr (Some fb)"
  shows "QAWorkflow_run lib w self subjects keywords num_qas difficulty audience tr
         = (Inr (content_value c),
            tr @ [Call KNOWLEDGE_RETRIEVER (retriever_prompt (search_query lib subjects keywords)) (Retrieved ctx),
                  Call (generator self) (generator_prompt (generator self) None) (Generated c),
                  Call QUESTION_REVIEWER (review_prompt lib c difficulty audience) (Reviewed (Some fb))])"
proof -
  have one: "MAX_ROUNDS = Suc 0"
    by (simp add: MAX_ROUNDS_def)
  show ?thesis
    unfolding QAWorkflow_run_unfold ret sum.case one run_rounds_Suc [OF g]
    using gen rev
    by (simp add: run_rounds_0 denoted_dumped del: run_rounds.simps)
qed

text \<open>
  C2. A run of the workflow asks the retriever once and then makes at most \<open>MAX_ROUNDS\<close>
  generator calls, each followed by at most one reviewer call, so at most \<open>MAX_ROUNDS\<close>
  reviewer calls. Every call of the run is a call the world answered, logged with the
  world's answer. An approving review is the last call of the run, and the run then
  returns the batch generated last. When no call fails and no review approves, the run
  makes exactly \<open>MAX_ROUNDS\<close> generator calls and \<open>MAX_ROUNDS\<close> reviewer calls and still returns
  the batch generated last, not an error. In the reference configuration, whenever
  retriever, generator and reviewer answer, the run is exactly one round: these three
  calls, and the generator's answer returned, approved or not.
\<close>

theorem review_loop_bounded:
  assumes "is_generator (generator self)"
  shows "(\<exists>ext. snd (QAWorkflow_run lib w self subjects keywords num_qas difficulty audience tr) = tr @ ext
     \<and> logged_by w (length tr) ext
     \<and> count_calls is_generator ext \<le> MAX_ROUNDS
     \<and> count_calls is_reviewer ext \<le> MAX_ROUNDS
     \<and> count_calls is_reviewer ext \<le> count_calls is_generator ext
     \<and> (\<forall>c\<in>set (butlast ext). \<not> approving c)
     \<and> (ext \<noteq> [] \<and> approving (last ext) \<longrightarrow>
          (\<exists>c. last_generated ext = Some c
             \<and> fst (QAWorkflow_run lib w self subjects keywords num_qas difficulty audience tr)
                 = Inr (content_value c)))
     \<and> ((\<forall>c\<in>set ext. \<not> failing c \<and> \<not> approving c) \<longrightarrow>
          count_calls is_generator ext = MAX_ROUNDS
          \<and> count_calls is_reviewer ext = MAX_ROUNDS
          \<and> (\<exists>c. last_generated ext = Some c
                \<and> fst (QAWorkflow_run lib w self subjects keywords num_qas difficulty audience tr)
                    = Inr (content_value c))))
   \<and> (\<forall>ctx c fb.
         retriever_reply w (length tr) (retriever_prompt (search_query lib subjects keywords)) = Inr ctx
         \<and> generator_reply w (generator self) (Suc (length tr)) (generator_prompt (generator self) None) = Inr c
         \<and> reviewer_reply w (Suc (Suc (length tr))) (review_prompt lib c difficulty audience) = Inr (Some fb)
         \<longrightarrow>
         QAWorkflow_run lib w self subjects keywords num_qas difficulty audience tr
           = (Inr (content_value c),
              tr @ [Call KNOWLEDGE_RETRIEVER (retriever_prompt (search_query lib subjects keywords)) (Retrieved ctx),
                    Call (generator self) (generator_prompt (generator self) None) (Generated c),
                    Call QUESTION_REVIEWER (review_prompt lib c difficulty audience) (Reviewed (Some fb))]))"
proof -
  let ?run = "QAWorkflow_run lib w self subjects keywords num_qas difficulty audience tr"
  let ?rp = "retriever_prompt (search_query lib subjects keywords)"
  from QAWorkflow_run_trace [OF assms, of lib w subjects "keywords" num_qas difficulty audience tr]
  obtain r ext where ext: "snd ?run = tr @ Call KNOWLEDGE_RETRIEVER ?rp r # ext"
    and r: "(\<exists>e. r = Raised e) \<or> (\<exists>x. r = Retrieved x)"
    and cg: "count_calls is_generator ext \<le> MAX_ROUNDS"
    and cr: "count_calls is_reviewer ext \<le> MAX_ROUNDS"
    and inner: "\<forall>c\<in>set (butlast (Call KNOWLEDGE_RETRIEVER ?rp r # ext)). \<not> approving c \<and> \<not> failing c"
    and res: "(\<exists>v. fst ?run = Inr v)
          \<or> (\<not> failing (Call KNOWLEDGE_RETRIEVER ?rp r) \<and> (\<forall>c\<in>set ext. \<not> failing c \<and> \<not> approving c)) \<longrightarrow>
         count_calls is_generator ext \<le> MAX_ROUNDS
         \<and> (\<exists>c. last_generated ext = Some c \<and> fst ?run = Inr (content_value c))"
    and app: "ext \<noteq> [] \<and> approving (last ext) \<longrightarrow> (\<exists>v. fst ?run = Inr v)"
    and full: "\<not> failing (Call KNOWLEDGE_RETRIEVER ?rp r) \<and> (\<forall>c\<in>set ext. \<not> failing c \<and> \<not> approving c) \<longrightarrow>
         count_calls is_generator ext = MAX_ROUNDS \<and> count_calls is_reviewer ext = MAX_ROUNDS"
    and logged: "logged_by w (length tr) (Call KNOWLEDGE_RETRIEVER ?rp r # ext)"
    and pairs: "count_calls is_reviewer ext \<le> count_calls is_generator ext"
    by blast
  let ?R = "Call KNOWLEDGE_RETRIEVER ?rp r"
  from r have not_app: "\<not> approving ?R" and lg: "last_generated (?R # ext) = last_generated ext"
    by (auto split: option.splits)
  have 1: "count_calls is_generator (?R # ext) \<le> MAX_ROUNDS"
    using cg by simp
  have 2: "count_calls is_reviewer (?R # ext) \<le> MAX_ROUNDS"
    using cr by simp
  have 3: "\<forall>c\<in>set (butlast (?R # ext)). \<not> approving c"
    using inner by blast
  have 4: "?R # ext \<noteq> [] \<and> approving (last (?R # ext)) \<longrightarrow>
          (\<exists>c. last_generated (?R # ext) = Some c \<and> fst ?run = Inr (content_value c))"
  proof
    assume a: "?R # ext \<noteq> [] \<and> approving (last (?R # ext))"
    with not_app have "ext \<noteq> [] \<and> approving (last ext)"
      by (cases "ext = []") simp_all
    with app have "\<exists>v. fst ?run = Inr v" by (rule mp)
    with res have "\<exists>c. last_generated ext = Some c \<and> fst ?run = Inr (content_value c)"
      by blast
    then show "\<exists>c. last_generated (?R # ext) = Some c \<and> fst ?run = Inr (content_value c)"
      unfolding lg .
  qed
  have 5: "(\<forall>c\<in>set (?R # ext). \<not> failing c \<and> \<not> approving c) \<longrightarrow>
          count_calls is_generator (?R # ext) = MAX_ROUNDS
          \<and> count_calls is_reviewer (?R # ext) = MAX_ROUNDS
          \<and> (\<exists>c. last_generated (?R # ext) = Some c \<and> fst ?run = Inr (content_value c))"
  proof
    assume "\<forall>c\<in>set (?R # ext). \<not> failing c \<and> \<not> approving c"
    then have p: "\<not> failing ?R \<and> (\<forall>c\<in>set ext. \<not> failing c \<and> \<not> approving c)"
      by simp
    with full have "count_calls is_generator ext = MAX_ROUNDS \<and> count_calls is_reviewer ext = MAX_ROUNDS"
      by (rule mp)
    moreover from res p have "\<exists>c. last_generated ext = Some c \<and> fst ?run = Inr (content_value c)"
      by blast
    ultimately show "count_calls is_generator (?R # ext) = MAX_ROUNDS
          \<and> count_calls is_reviewer (?R # ext) = MAX_ROUNDS
          \<and> (\<exists>c. last_generated (?R # ext) = Some c \<and> fst ?run = Inr (content_value c))"
      unfolding lg by simp
  qed
  have 6: "count_calls is_reviewer (?R # ext) \<le> count_calls is_generator (?R # ext)"
    using pairs by simp
  have trace: "\<exists>ext. snd ?run = tr @ ext
     \<and> logged_by w (length tr) ext
     \<and> count_calls is_generator ext \<le> MAX_ROUNDS
     \<and> count_calls is_reviewer ext \<le> MAX_ROUNDS
     \<and> count_calls is_reviewer ext \<le> count_calls is_generator ext
     \<and> (\<forall>c\<in>set (butlast ext). \<not> approving c)
     \<and> (ext \<noteq> [] \<and> approving (last ext) \<longrightarrow>
          (\<exists>c. last_generated ext = Some c \<and> fst ?run = Inr (content_value c)))
     \<and> ((\<forall>c\<in>set ext. \<not> failing c \<and> \<not> approving c) \<longrightarrow>
          count_calls is_generator ext = MAX_ROUNDS
          \<and> count_calls is_reviewer ext = MAX_ROUNDS
          \<and> (\<exists>c. last_generated ext = Some c \<and> fst ?run = Inr (content_value c)))"
    by (rule exI [of _ "?R # ext"]) (intro conjI ext logged 1 2 6 3 4 5)
  have round: "\<forall>ctx c fb.
         retriever_reply w (length tr) ?rp = Inr ctx
         \<and> generator_reply w (generator self) (Suc (length tr)) (generator_prompt (generator self) None) = Inr c
         \<and> reviewer_reply w (Suc (Suc (length tr))) (review_prompt lib c difficulty audience) = Inr (Some fb)
         \<longrightarrow>
         ?run = (Inr (content_value c),
              tr @ [Call KNOWLEDGE_RETRIEVER ?rp (Retrieved ctx),
                    Call (generator self) (generator_prompt (generator self) None) (Generated c),
                    Call QUESTION_REVIEWER (review_prompt lib c difficulty audience) (Reviewed (Some fb))])"
  proof (intro allI impI)
    fix ctx c fb
    assume a: "retriever_reply w (length tr) ?rp = Inr ctx
         \<and> generator_reply w (generator self) (Suc (length tr)) (generator_prompt (generator self) None) = Inr c
         \<and> reviewer_reply w (Suc (Suc (length tr))) (review_prompt lib c difficulty audience) = Inr (Some fb)"
    show "?run = (Inr (content_value c),
              tr @ [Call KNOWLEDGE_RETRIEVER ?rp (Retrieved ctx),
                    Call (generator self) (generator_prompt (generator self) None) (Generated c),
                    Call QUESTION_REVIEWER (review_prompt lib c difficulty audience) (Reviewed (Some fb))])"
      by (rule QAWorkflow_run_round [OF assms conjunct1 [OF a] conjunct1 [OF conjunct2 [OF a]]
            conjunct2 [OF conjunct2 [OF a]]])
  qed
  from trace round show ?thesis
    by (rule conjI)
qed


lemma is_generator_example [simp]: "is_generator (generator example_workflow)"
  by (simp add: example_workflow_def is_generator_def)

lemma example_replies:
  "retriever_reply (scripted_world [example_question] (Some ''Frage 1 ist zu allgemein.'')) 0
      (retriever_prompt (search_query example_lib (JStr ''Statistik'') (JStr ''rechnen'')))
     = Inr (Some example_context)"
  "generator_reply (scripted_world [example_question] (Some ''Frage 1 ist zu allgemein.''))
      (generator example_workflow) (Suc 0) (generator_prompt (generator example_workflow) None)
     = Inr (Model \<lparr>questions = [example_question]\<rparr>)"
  "reviewer_reply (scripted_world [example_question] (Some ''Frage 1 ist zu allgemein.'')) (Suc (Suc 0))
      (review_prompt example_lib (Model \<lparr>questions = [example_question]\<rparr>) (JStr ''mittel'') (JStr ''bachelor''))
     = Inr (Some ''Frage 1 ist zu allgemein.'')"
  by (simp_all add: scripted_world_def)

theorem review_loop_bounded_witness:
  "is_generator (generator example_workflow)
   \<and> retriever_reply (scripted_world [example_question] (Some ''Frage 1 ist zu allgemein.'')) 0
        (retriever_prompt (search_query example_lib (JStr ''Statistik'') (JStr ''rechnen'')))
       = Inr (Some example_context)
   \<and> generator_reply (scripted_world [example_question] (Some ''Frage 1 ist zu allgemein.''))
        (generator example_workflow) (Suc 0) (generator_prompt (generator example_workflow) None)
       = Inr (Model \<lparr>questions = [example_question]\<rparr>)
   \<and> reviewer_reply (scripted_world [example_question] (Some ''Frage 1 ist zu allgemein.'')) (Suc (Suc 0))
        (review_prompt example_lib (Model \<lparr>questions = [example_question]\<rparr>) (JStr ''mittel'') (JStr ''bachelor''))
       = Inr (Some ''Frage 1 ist zu allgemein.'')
   \<and> \<not> str_contains ''Review OK'' ''Frage 1 ist zu allgemein.''
   \<and> count_calls is_generator
        (snd (QAWorkflow_run example_lib (scripted_world [example_question] (Some ''Frage 1 ist zu allgemein.''))
                example_workflow (JStr ''Statistik'') (JStr ''rechnen'') 1 (JStr ''mittel'') (JStr ''bachelor'') []))
      = MAX_ROUNDS
   \<and> count_calls is_reviewer
        (snd (QAWorkflow_run example_lib (scripted_world [example_question] (Some ''Frage 1 ist zu allgemein.''))
                example_workflow (JStr ''Statistik'') (JStr ''rechnen'') 1 (JStr ''mittel'') (JStr ''bachelor'') []))
      = MAX_ROUNDS
   \<and> QAWorkflow_run example_lib (scripted_world [example_question] (Some ''Frage 1 ist zu allgemein.''))
            example_workflow (JStr ''Statistik'') (JStr ''rechnen'') 1 (JStr ''mittel'') (JStr ''bachelor'') []
      = (Inr (content_value (Model \<lparr>questions = [example_question]\<rparr>)),
         [Call KNOWLEDGE_RETRIEVER
            (retriever_prompt (search_query example_lib (JStr ''Statistik'') (JStr ''rechnen'')))
            (Retrieved (Some example_context)),
          Call (generator example_workflow) (generator_prompt (generator example_workflow) None)
            (Generated (Model \<lparr>questions = [example_question]\<rparr>)),
          Call QUESTION_REVIEWER
            (review_prompt example_lib (Model \<lparr>questions = [example_question]\<rparr>) (JStr ''mittel'') (JStr ''bachelor''))
            (Reviewed (Some ''Frage 1 ist zu allgemein.''))])"
proof -
  let ?w = "scripted_world [example_question] (Some ''Frage 1 ist zu allgemein.'')"
  let ?c = "Model \<lparr>questions = [example_question]\<rparr>"
  let ?run = "QAWorkflow_run example_lib ?w
                example_workflow (JStr ''Statistik'') (JStr ''rechnen'') 1 (JStr ''mittel'') (JStr ''bachelor'') []"
  let ?ext = "[Call KNOWLEDGE_RETRIEVER
            (retriever_prompt (search_query example_lib (JStr ''Statistik'') (JStr ''rechnen'')))
            (Retrieved (Some example_context)),
          Call (generator example_workflow) (generator_prompt (generator example_workflow) None)
            (Generated ?c),
          Call QUESTION_REVIEWER
            (review_prompt example_lib ?c (JStr ''mittel'') (JStr ''bachelor''))
            (Reviewed (Some ''Frage 1 ist zu allgemein.''))]"
  note bounded = review_loop_bounded [OF is_generator_example, of example_lib ?w
      "JStr ''Statistik''" "JStr ''rechnen''" 1 "JStr ''mittel''" "JStr ''bachelor''" "[]"]
  have replies: "retriever_reply ?w (length ([] :: trace))
        (retriever_prompt (search_query example_lib (JStr ''Statistik'') (JStr ''rechnen''))) = Inr (Some example_context)
      \<and> generator_reply ?w (generator example_workflow) (Suc (length ([] :: trace)))
          (generator_prompt (generator example_workflow) None) = Inr ?c
      \<and> reviewer_reply ?w (Suc (Suc (length ([] :: trace))))
          (review_prompt example_lib ?c (JStr ''mittel'') (JStr ''bachelor'')) = Inr (Some ''Frage 1 ist zu allgemein.'')"
    using example_replies by simp
  from conjunct2 [OF bounded] replies have run: "?run = (Inr (content_value ?c), [] @ ?ext)"
    by blast
  have quiet: "\<not> str_contains ''Review OK'' ''Frage 1 ist zu allgemein.''"
    by code_simp
  from conjunct1 [OF bounded] obtain ext where ext: "snd ?run = [] @ ext"
    and exhausted: "(\<forall>c\<in>set ext. \<not> failing c \<and> \<not> approving c) \<longrightarrow>
          count_calls is_generator ext = MAX_ROUNDS
          \<and> count_calls is_reviewer ext = MAX_ROUNDS
          \<and> (\<exists>c. last_generated ext = Some c \<and> fst ?run = Inr (content_value c))"
    by blast
  from ext run have ext_eq: "ext = ?ext" by simp
  have "\<forall>c\<in>set ext. \<not> failing c \<and> \<not> approving c"
    unfolding ext_eq using quiet by simp
  with exhausted have counts: "count_calls is_generator ext = MAX_ROUNDS \<and> count_calls is_reviewer ext = MAX_ROUNDS"
    by blast
  from ext have "snd ?run = ext" by simp
  with counts have c': "count_calls is_generator (snd ?run) = MAX_ROUNDS"
      "count_calls is_reviewer (snd ?run) = MAX_ROUNDS"
    by simp_all
  from run have run': "?run = (Inr (content_value ?c), ?ext)" by simp
  show ?thesis
    by (intro conjI is_generator_example example_replies quiet c' run')
qed





lemma example_replies_approved:
  "retriever_reply (scripted_world [example_question] (Some ''Review OK'')) 0
      (retriever_prompt (search_query example_lib (JStr ''Statistik'') (JStr ''rechnen'')))
     = Inr (Some example_context)"
  "generator_reply (scripted_world [example_question] (Some ''Review OK''))
      (generator example_workflow) (Suc 0) (generator_prompt (generator example_workflow) None)
     = Inr (Model \<lparr>questions = [example_question]\<rparr>)"
  "reviewer_reply (scripted_world [example_question] (Some ''Review OK'')) (Suc (Suc 0))
      (review_prompt example_lib (Model \<lparr>questions = [example_question]\<rparr>) (JStr ''mittel'') (JStr ''bachelor''))
     = Inr (Some ''Review OK'')"
  by (simp_all add: scripted_world_def)

lemma example_run_approved:
  "QAWorkflow_run example_lib (scripted_world [example_question] (Some ''Review OK''))
     example_workflow (JStr ''Statistik'') (JStr ''rechnen'') 3 (JStr ''mittel'') (JStr ''bachelor'') []
   = (Inr (content_value (Model \<lparr>questions = [example_question]\<rparr>)),
      [] @ [Call KNOWLEDGE_RETRIEVER
         (retriever_prompt (search_query example_lib (JStr ''Statistik'') (JStr ''rechnen'')))
         (Retrieved (Some example_context)),
       Call (generator example_workflow) (generator_prompt (generator example_workflow) None)
         (Generated (Model \<lparr>questions = [example_question]\<rparr>)),
       Call QUESTION_REVIEWER
         (review_prompt example_lib (Model \<lparr>questions = [example_question]\<rparr>) (JStr ''mittel'') (JStr ''bachelor''))
         (Reviewed (Some ''Review OK''))])"
  by (rule QAWorkflow_run_round [OF is_generator_example])
    (simp_all add: example_replies_approved)


text \<open>
  C4, as the claim states it, fails: an empty answer of the reviewer is neither an
  approval nor feedback (nothing is added to the next generator prompt), and it is not
  an error either: the run returns the batch.
\<close>

theorem empty_review_counterexample:
  "fst (QAWorkflow_run example_lib (scripted_world [example_question] (Some []))
          example_workflow (JStr ''Statistik'') (JStr ''rechnen'') 1 (JStr ''mittel'') (JStr ''bachelor'') [])
     = Inr (JObj [(''questions'', JList [Question_json example_question])])
   \<and> map call_prompt
         (filter (\<lambda>c. is_generator (callee c))
            (snd (run_rounds example_lib (scripted_world [example_question] (Some []))
                    example_workflow 1 (JStr ''mittel'') (JStr ''bachelor'') (Some example_context)
                    2 None None [])))
       = [COMPREHENSION_QA_GENERATOR_INSTRUCTIONS, COMPREHENSION_QA_GENERATOR_INSTRUCTIONS]"
  by code_simp

text \<open>
  C4, amended. In a round whose generator call succeeded, the reviewer's answer is
  classified by one test. A text that contains \<open>Review OK\<close> is approval: the batch is
  returned at once. Every other text, empty or not, is kept as feedback and the loop
  goes on; in the last round the batch is then returned all the same. No text is an
  error; only an answer that is no text raises an error.
\<close>

theorem review_answer_classified:
  assumes "is_generator (generator self)"
    and "generator_reply w (generator self) (length tr) (generator_prompt (generator self) feedback) = Inr c"
  shows "(\<forall>fb. reviewer_reply w (Suc (length tr)) (review_prompt lib c difficulty audience) = Inr (Some fb)
              \<and> str_contains ''Review OK'' fb \<longrightarrow>
            run_rounds lib w self num_qas difficulty audience context (Suc k) feedback qa tr =
              (Inr (content_value c),
               tr @ [Call (generator self) (generator_prompt (generator self) feedback) (Generated c),
                     Call QUESTION_REVIEWER (review_prompt lib c difficulty audience) (Reviewed (Some fb))]))
     \<and> (\<forall>fb. reviewer_reply w (Suc (length tr)) (review_prompt lib c difficulty audience) = Inr (Some fb)
              \<and> \<not> str_contains ''Review OK'' fb \<longrightarrow>
            run_rounds lib w self num_qas difficulty audience context (Suc k) feedback qa tr =
              run_rounds lib w self num_qas difficulty audience context k (Some fb) (Some (dumped lib c))
                (tr @ [Call (generator self) (generator_prompt (generator self) feedback) (Generated c),
                       Call QUESTION_REVIEWER (review_prompt lib c difficulty audience) (Reviewed (Some fb))]))
     \<and> (\<forall>fb. reviewer_reply w (Suc (length tr)) (review_prompt lib c difficulty audience) = Inr (Some fb) \<longrightarrow>
            fst (run_rounds lib w self num_qas difficulty audience context (Suc 0) feedback qa tr)
              = Inr (content_value c))
     \<and> (reviewer_reply w (Suc (length tr)) (review_prompt lib c difficulty audience) = Inr None \<longrightarrow>
            fst (run_rounds lib w self num_qas difficulty audience context (Suc k) feedback qa tr)
              = Inl (Exc ''TypeError'' ''argument of type 'NoneType' is not iterable''))"
  using assms(2)
  by (simp add: run_rounds_Suc [OF assms(1)] run_rounds_0 denoted_dumped del: run_rounds.simps)

lemma example_feedback_not_approval:
  "\<not> str_contains ''Review OK'' ''Bitte genauer fragen.''"
  by code_simp

theorem review_answer_classified_witness:
  "is_generator (generator example_workflow)
   \<and> generator_reply (scripted_world [example_question] (Some ''Bitte genauer fragen.''))
         (generator example_workflow) (length ([] :: trace)) (generator_prompt (generator example_workflow) None)
       = Inr (Model \<lparr>questions = [example_question]\<rparr>)
   \<and> fst (run_rounds example_lib (scripted_world [example_question] (Some ''Bitte genauer fragen.''))
            example_workflow 1 (JStr ''mittel'') (JStr ''bachelor'') (Some example_context) (Suc 0) None None [])
       = Inr (content_value (Model \<lparr>questions = [example_question]\<rparr>))"
proof -
  let ?w = "scripted_world [example_question] (Some ''Bitte genauer fragen.'')"
  have gen: "generator_reply ?w (generator example_workflow) (length ([] :: trace))
               (generator_prompt (generator example_workflow) None)
             = Inr (Model \<lparr>questions = [example_question]\<rparr>)"
    by (simp add: scripted_world_def)
  have rev: "reviewer_reply ?w (Suc (length ([] :: trace)))
               (review_prompt example_lib (Model \<lparr>questions = [example_question]\<rparr>) (JStr ''mittel'') (JStr ''bachelor''))
             = Inr (Some ''Bitte genauer fragen.'')"
    by (simp add: scripted_world_def)
  from review_answer_classified [OF is_generator_example gen, of example_lib "JStr ''mittel''" "JStr ''bachelor''"
      1 "Some example_context" 0 None]
  have "\<forall>fb. reviewer_reply ?w (Suc (length ([] :: trace)))
               (review_prompt example_lib (Model \<lparr>questions = [example_question]\<rparr>) (JStr ''mittel'') (JStr ''bachelor''))
             = Inr (Some fb) \<longrightarrow>
            fst (run_rounds example_lib ?w example_workflow 1 (JStr ''mittel'') (JStr ''bachelor'')
                   (Some example_context) (Suc 0) None None [])
              = Inr (content_value (Model \<lparr>questions = [example_question]\<rparr>))"
    by blast
  with rev have "fst (run_rounds example_lib ?w example_workflow 1 (JStr ''mittel'') (JStr ''bachelor'')
                   (Some example_context) (Suc 0) None None [])
              = Inr (content_value (Model \<lparr>questions = [example_question]\<rparr>))"
    by blast
  with gen show ?thesis
    using is_generator_example by blast
qed

section \<open>The retrieved context\<close>

lemma retriever_called_once:
  assumes "is_generator (generator self)"
  shows "\<exists>r ext. snd (QAWorkflow_run lib w self subjects keywords num_qas difficulty audience tr)
                  = tr @ Call KNOWLEDGE_RETRIEVER (retriever_prompt (search_query lib subjects keywords)) r # ext
     \<and> count_calls (\<lambda>a. a = KNOWLEDGE_RETRIEVER) ext = 0"
proof -
  from QAWorkflow_run_trace [OF assms, of lib w subjects "keywords" num_qas difficulty audience tr]
  obtain r ext where ext: "snd (QAWorkflow_run lib w self subjects keywords num_qas difficulty audience tr)
                  = tr @ Call KNOWLEDGE_RETRIEVER (retriever_prompt (search_query lib subjects keywords)) r # ext"
    and others: "\<forall>c\<in>set ext. callee c \<noteq> KNOWLEDGE_RETRIEVER"
    by blast
  from others have "count_calls (\<lambda>a. a = KNOWLEDGE_RETRIEVER) ext = 0"
    by (simp add: count_calls_def)
  with ext show ?thesis by blast
qed

text \<open>
  Formatting the template that the module defines for the generators, and gives to
  neither of them, would put the context into the prompt.
\<close>

lemma base_template_carries_context:
  "py_format BASE_GENERATOR_INSTRUCTIONS
     [(''num'', num), (''q_type'', q_type), (''difficulty'', difficulty), (''audience'', audience),
      (''context'', context)]
   = Inr (concat
       [nl,
        ''Du erstellst Frage-Antort-Paare f'', u_ue, ''r eine Lernplattform. Formuliere s'', u_ae, ''mtliche Fragen, Antworten und L'', u_oe, ''sungswege etc. ausschlie'', u_sz, ''lich auf Deutsch.'', nl,
        nl,
        ''Erstelle '', num, '' Aufgaben des Typs **'', q_type, ''** im Schwierigkeitsgrad **'', difficulty, ''** f'', u_ue, ''r die Zielgruppe **'', audience, ''**.'', nl,
        ''Nutze folgenden Kontext:'', nl,
        context, nl])"
  by (simp add: py_format_def BASE_GENERATOR_INSTRUCTIONS_def nl_def u_ue_def u_ae_def u_oe_def u_sz_def)

text \<open>
  C5. The retrieved context does not reach the generator. The instructions of both
  generators hold no replacement field, so formatting them with the context (and with
  the count, the type, the difficulty and the audience) returns them as they are, and
  the rounds of the loop are the same for every context.
\<close>

theorem generator_prompt_without_context:
  assumes "is_generator (generator self)"
  shows "py_format (instructions (generator self))
           [(''num'', str_of_int num_qas),
            (''q_type'', q_type_label self),
            (''difficulty'', py_str lib difficulty),
            (''audience'', py_str lib audience),
            (''context'', py_str_opt context)] = Inr (instructions (generator self))
     \<and> run_rounds lib w self num_qas difficulty audience context n feedback qa tr
         = run_rounds lib w self num_qas difficulty audience context' n feedback qa tr"
  using generator_format [OF assms] run_rounds_context [OF assms]
  by blast

lemma example_context_not_in_prompt:
  "\<not> str_contains example_context COMPREHENSION_QA_GENERATOR_INSTRUCTIONS"
  by code_simp

theorem generator_prompt_without_context_witness:
  "is_generator (generator example_workflow)
   \<and> run_rounds example_lib (scripted_world [example_question] (Some ''Review OK'')) example_workflow 3
         (JStr ''mittel'') (JStr ''bachelor'') (Some example_context) MAX_ROUNDS None None []
       = run_rounds example_lib (scripted_world [example_question] (Some ''Review OK'')) example_workflow 3
         (JStr ''mittel'') (JStr ''bachelor'') None MAX_ROUNDS None None []
   \<and> map call_prompt
         (filter (\<lambda>c. is_generator (callee c))
            (snd (QAWorkflow_run example_lib (scripted_world [example_question] (Some ''Review OK''))
                    example_workflow (JStr ''Statistik'') (JStr ''rechnen'') 3 (JStr ''mittel'')
                    (JStr ''bachelor'') [])))
       = [COMPREHENSION_QA_GENERATOR_INSTRUCTIONS]
   \<and> \<not> str_contains example_context COMPREHENSION_QA_GENERATOR_INSTRUCTIONS"
proof -
  from generator_prompt_without_context [OF is_generator_example]
  have same: "run_rounds example_lib (scripted_world [example_question] (Some ''Review OK'')) example_workflow 3
         (JStr ''mittel'') (JStr ''bachelor'') (Some example_context) MAX_ROUNDS None None []
       = run_rounds example_lib (scripted_world [example_question] (Some ''Review OK'')) example_workflow 3
         (JStr ''mittel'') (JStr ''bachelor'') None MAX_ROUNDS None None []"
    by blast
  have prompts: "map call_prompt
         (filter (\<lambda>c. is_generator (callee c))
            (snd (QAWorkflow_run example_lib (scripted_world [example_question] (Some ''Review OK''))
                    example_workflow (JStr ''Statistik'') (JStr ''rechnen'') 3 (JStr ''mittel'')
                    (JStr ''bachelor'') [])))
       = [COMPREHENSION_QA_GENERATOR_INSTRUCTIONS]"
    unfolding example_run_approved
    by (simp add: is_generator_def example_workflow_def generator_prompt_def)
  from same prompts example_context_not_in_prompt is_generator_example show ?thesis
    by blast
qed

section \<open>Upload and indexing\<close>

lemma fold_upd_apply:
  "fold (\<lambda>(k, d) t'. t'(k \<mapsto> d)) kvs t i =
     (case map_of (rev kvs) i of Some d \<Rightarrow> Some d | None \<Rightarrow> t i)"
proof (induction kvs arbitrary: t)
  case Nil
  show ?case by simp
next
  case (Cons kv kvs)
  obtain k d where kv: "kv = (k, d)" by (cases kv)
  have "fold (\<lambda>(k, d) t'. t'(k \<mapsto> d)) (kv # kvs) t i
          = fold (\<lambda>(k, d) t'. t'(k \<mapsto> d)) kvs (t(k \<mapsto> d)) i"
    unfolding kv by (simp only: fold_simps comp_apply prod.case)
  also have "\<dots> = (case map_of (rev kvs) i of Some d \<Rightarrow> Some d | None \<Rightarrow> (t(k \<mapsto> d)) i)"
    by (rule Cons.IH)
  also have "\<dots> = (case map_of (rev (kv # kvs)) i of Some d \<Rightarrow> Some d | None \<Rightarrow> t i)"
    unfolding kv by (simp add: map_add_def split: option.splits)
  finally show ?case .
qed

lemma put_objects_apply:
  "put_objects w files b = Inr b' \<Longrightarrow>
   b' i = (case map_of (rev files) i of Some c \<Rightarrow> Some c | None \<Rightarrow> b i)"
proof (induction files arbitrary: b)
  case Nil
  then show ?case by simp
next
  case (Cons fc files)
  obtain f c where fc: "fc = (f, c)" by (cases fc)
  from Cons.prems fc have "put_objects w files (b(f \<mapsto> c)) = Inr b'"
    by (simp split: option.splits)
  from Cons.IH [OF this] show ?case
    by (simp add: fc map_add_def split: option.splits)
qed

lemma map_of_rev_rows:
  "(k \<notin> fst ` set kvs \<longrightarrow> map_of (rev kvs) k = None)
   \<and> (k \<in> fst ` set kvs \<longrightarrow> (\<exists>d. (k, d) \<in> set kvs \<and> map_of (rev kvs) k = Some d))"
proof (intro conjI impI)
  assume "k \<notin> fst ` set kvs"
  then show "map_of (rev kvs) k = None"
    by (simp add: map_of_eq_None_iff)
next
  assume "k \<in> fst ` set kvs"
  then have "k \<in> fst ` set (rev kvs)" by simp
  then obtain d where d: "map_of (rev kvs) k = Some d"
    by (metis map_of_eq_None_iff not_Some_eq)
  then have "(k, d) \<in> set (rev kvs)" by (rule map_of_SomeD)
  with d show "\<exists>d. (k, d) \<in> set kvs \<and> map_of (rev kvs) k = Some d"
    by auto
qed

lemma updated_rows:
  assumes "\<And>i. m' i = (case map_of (rev kvs) i of Some d \<Rightarrow> Some d | None \<Rightarrow> m i)"
  shows "(\<forall>k. k \<notin> fst ` set kvs \<longrightarrow> m' k = m k)
       \<and> (\<forall>k\<in>fst ` set kvs. \<exists>d. (k, d) \<in> set kvs \<and> m' k = Some d)"
proof (intro conjI allI ballI impI)
  fix k assume "k \<notin> fst ` set kvs"
  with map_of_rev_rows [of k kvs] have "map_of (rev kvs) k = None" by blast
  then show "m' k = m k" by (simp add: assms)
next
  fix k assume "k \<in> fst ` set kvs"
  with map_of_rev_rows [of k kvs] obtain d where "(k, d) \<in> set kvs" and "map_of (rev kvs) k = Some d"
    by blast
  then show "\<exists>d. (k, d) \<in> set kvs \<and> m' k = Some d"
    by (auto simp: assms)
qed

lemma upsert_documents_append:
  "upsert_documents (xs @ ys) t = upsert_documents ys (upsert_documents xs t)"
  by (simp add: upsert_documents_def)

lemma upsert_urls_result:
  "upsert_urls w b urls t = Inr t' \<Longrightarrow>
   \<exists>docss. list_all2 (\<lambda>url docs. read_url w b url = Inr docs) (filter (suffix ''.pdf'') urls) docss
          \<and> t' = upsert_documents (concat docss) t"
proof (induction urls arbitrary: t)
  case Nil
  then show ?case by (simp add: upsert_documents_def)
next
  case (Cons url urls)
  show ?case
  proof (cases "suffix ''.pdf'' url")
    case False
    with Cons.prems have "upsert_urls w b urls t = Inr t'" by simp
    from Cons.IH [OF this] False show ?thesis by simp
  next
    case True
    with Cons.prems obtain docs where docs: "read_url w b url = Inr docs"
      and rest: "upsert_urls w b urls (upsert_documents docs t) = Inr t'"
      by (auto split: sum.splits)
    from Cons.IH [OF rest] obtain docss
      where all: "list_all2 (\<lambda>url docs. read_url w b url = Inr docs) (filter (suffix ''.pdf'') urls) docss"
        and t': "t' = upsert_documents (concat docss) (upsert_documents docs t)"
      by blast
    have "list_all2 (\<lambda>url docs. read_url w b url = Inr docs) (filter (suffix ''.pdf'') (url # urls)) (docs # docss)"
      using True docs all by simp
    moreover have "t' = upsert_documents (concat (docs # docss)) t"
      using t' by (simp add: upsert_documents_append)
    ultimately show ?thesis by blast
  qed
qed

text \<open>An upload without files fails: the knowledge base is given no URL.\<close>

lemma upload_without_files_fails:
  assumes "completion_order w [] = []"
  shows "\<exists>e. main w base_url [] s = Inl e \<and> exc_class e = ''ValueError''"
  using assms
  by (simp add: main_def save_files_to_s3_def load_files_from_s3_to_knowledge_base_def aload_def
        s3_file_urls_def)

text \<open>
  C9, as the claim states it, fails: the bucket already holds \<open>old.pdf\<close>, which the
  knowledge store has not indexed; after the upload of \<open>new.pdf\<close> both objects are
  stored, and the knowledge store holds the new document only.
\<close>

theorem only_uploaded_files_indexed_counterexample:
  "(case main example_upload_world s3_bucket_base_url [(''new.pdf'', ''%PDF new'')]
           \<lparr>bucket = [''old.pdf'' \<mapsto> ''%PDF old''], table = None\<rparr> of
      Inl e \<Rightarrow> False
    | Inr s \<Rightarrow>
        bucket s ''old.pdf'' = Some ''%PDF old'' \<and> bucket s ''new.pdf'' = Some ''%PDF new''
        \<and> (case table s of
              None \<Rightarrow> False
            | Some t \<Rightarrow> t (s3_bucket_base_url @ ''/old.pdf'') = None
                       \<and> t (s3_bucket_base_url @ ''/new.pdf'') = Some ''%PDF new''))"
  by code_simp

text \<open>
  C9, amended. An upload succeeds only when it has at least one file. After a
  successful upload, every uploaded filename holds in the bucket a content that was
  uploaded under it, and all other objects are as before. Then the URLs of exactly the
  uploaded files are considered, and of these only the URLs ending in \<open>.pdf\<close> are read:
  the documents read from them are upserted into the knowledge store, each under its
  identity, and the rows of all other identities are left as they were. Objects that
  the bucket held before are not read and not indexed.
\<close>

theorem upload_stores_and_indexes_uploaded_files:
  assumes "main w base_url files s = Inr s'"
    and "set (completion_order w files) = set files"
  shows "files \<noteq> []
     \<and> (\<forall>f. f \<notin> fst ` set files \<longrightarrow> bucket s' f = bucket s f)
     \<and> (\<forall>f\<in>fst ` set files. \<exists>c. (f, c) \<in> set files \<and> bucket s' f = Some c)
     \<and> (\<exists>docss t'.
           list_all2 (\<lambda>url docs. read_url w (bucket s') url = Inr docs)
             (filter (suffix ''.pdf'') (map (\<lambda>filename. base_url @ ''/'' @ filename) (map fst files))) docss
         \<and> table s' = Some t'
         \<and> t' = upsert_documents (concat docss) (case table s of None \<Rightarrow> Map.empty | Some t \<Rightarrow> t)
         \<and> (\<forall>i. i \<notin> fst ` set (concat docss) \<longrightarrow>
                t' i = (case table s of None \<Rightarrow> None | Some t \<Rightarrow> t i))
         \<and> (\<forall>i\<in>fst ` set (concat docss). \<exists>d. (i, d) \<in> set (concat docss) \<and> t' i = Some d))"
proof -
  from assms(1) obtain b where saved: "save_files_to_s3 w files (bucket s) = Inr b"
    and loaded: "load_files_from_s3_to_knowledge_base w base_url (map fst files) (s\<lparr>bucket := b\<rparr>) = Inr s'"
    by (auto simp: main_def split: sum.splits)
  let ?urls = "map (\<lambda>filename. base_url @ ''/'' @ filename) (map fst files)"
  let ?t0 = "case table s of None \<Rightarrow> Map.empty | Some t \<Rightarrow> t"
  from loaded have nonempty: "files \<noteq> []"
    by (auto simp: load_files_from_s3_to_knowledge_base_def aload_def s3_file_urls_def Let_def)
  from loaded obtain t' where up: "upsert_urls w b ?urls ?t0 = Inr t'"
    and s': "s' = s\<lparr>bucket := b, table := Some t'\<rparr>"
    by (auto simp: load_files_from_s3_to_knowledge_base_def aload_def s3_file_urls_def Let_def
             split: sum.splits option.splits if_splits)
  from saved have put: "put_objects w (completion_order w files) (bucket s) = Inr b"
    unfolding save_files_to_s3_def .
  from updated_rows [OF put_objects_apply [OF put]]
  have out: "\<forall>f. f \<notin> fst ` set files \<longrightarrow> b f = bucket s f"
    and inn: "\<forall>f\<in>fst ` set files. \<exists>c. (f, c) \<in> set files \<and> b f = Some c"
    unfolding assms(2) by blast+
  from upsert_urls_result [OF up] obtain docss
    where all: "list_all2 (\<lambda>url docs. read_url w b url = Inr docs) (filter (suffix ''.pdf'') ?urls) docss"
      and t': "t' = upsert_documents (concat docss) ?t0"
    by blast
  have t'': "t' i = (case map_of (rev (concat docss)) i of Some d \<Rightarrow> Some d | None \<Rightarrow> ?t0 i)" for i
    unfolding t' upsert_documents_def by (rule fold_upd_apply)
  from updated_rows [OF t'']
  have rows_out: "\<forall>i. i \<notin> fst ` set (concat docss) \<longrightarrow> t' i = ?t0 i"
    and rows_in: "\<forall>i\<in>fst ` set (concat docss). \<exists>d. (i, d) \<in> set (concat docss) \<and> t' i = Some d"
    by blast+
  have t0: "?t0 i = (case table s of None \<Rightarrow> None | Some t \<Rightarrow> t i)" for i
    by (cases "table s") simp_all
  from rows_out have rows_out': "\<forall>i. i \<notin> fst ` set (concat docss) \<longrightarrow>
                t' i = (case table s of None \<Rightarrow> None | Some t \<Rightarrow> t i)"
    unfolding t0 .
  have bs: "bucket s' = b" and ts: "table s' = Some t'"
    unfolding s' by simp_all
  have store: "\<exists>docss t'.
           list_all2 (\<lambda>url docs. read_url w (bucket s') url = Inr docs)
             (filter (suffix ''.pdf'') ?urls) docss
         \<and> table s' = Some t'
         \<and> t' = upsert_documents (concat docss) ?t0
         \<and> (\<forall>i. i \<notin> fst ` set (concat docss) \<longrightarrow>
                t' i = (case table s of None \<Rightarrow> None | Some t \<Rightarrow> t i))
         \<and> (\<forall>i\<in>fst ` set (concat docss). \<exists>d. (i, d) \<in> set (concat docss) \<and> t' i = Some d)"
    unfolding bs
    by (rule exI [of _ docss], rule exI [of _ t']) (intro conjI all ts t' rows_out' rows_in)
  from out inn have out': "\<forall>f. f \<notin> fst ` set files \<longrightarrow> bucket s' f = bucket s f"
    and inn': "\<forall>f\<in>fst ` set files. \<exists>c. (f, c) \<in> set files \<and> bucket s' f = Some c"
    unfolding bs by blast+
  show ?thesis
    by (intro conjI nonempty out' inn' store)
qed

lemma length_s3_bucket_base_url:
  "drop (Suc (length s3_bucket_base_url)) (s3_bucket_base_url @ ''/'' @ f) = f"
  by simp

lemma example_url_is_pdf: "suffix ''.pdf'' (s3_bucket_base_url @ ''/new.pdf'')"
  by code_simp

lemma example_url_is_not_pdf: "\<not> suffix ''.pdf'' (s3_bucket_base_url @ ''/notes.txt'')"
  by code_simp

theorem upload_stores_and_indexes_uploaded_files_witness:
  "set (completion_order example_upload_world [(''new.pdf'', ''%PDF new''), (''notes.txt'', ''text'')])
     = set [(''new.pdf'', ''%PDF new''), (''notes.txt'', ''text'')]
   \<and> (\<exists>s'. main example_upload_world s3_bucket_base_url [(''new.pdf'', ''%PDF new''), (''notes.txt'', ''text'')]
             \<lparr>bucket = [''old.pdf'' \<mapsto> ''%PDF old''], table = Some [s3_bucket_base_url @ ''/old.pdf'' \<mapsto> ''%PDF old'']\<rparr>
           = Inr s'
         \<and> bucket s' ''new.pdf'' = Some ''%PDF new''
         \<and> bucket s' ''notes.txt'' = Some ''text''
         \<and> bucket s' ''old.pdf'' = Some ''%PDF old''
         \<and> (\<exists>t'. table s' = Some t'
               \<and> t' (s3_bucket_base_url @ ''/old.pdf'') = Some ''%PDF old''
               \<and> t' (s3_bucket_base_url @ ''/new.pdf'') = Some ''%PDF new''
               \<and> t' (s3_bucket_base_url @ ''/notes.txt'') = None))"
proof -
  let ?files = "[(''new.pdf'', ''%PDF new''), (''notes.txt'', ''text'')]"
  let ?s = "\<lparr>bucket = [''old.pdf'' \<mapsto> ''%PDF old''], table = Some [s3_bucket_base_url @ ''/old.pdf'' \<mapsto> ''%PDF old'']\<rparr>"
  let ?s' = "\<lparr>bucket = [''old.pdf'' \<mapsto> ''%PDF old'', ''new.pdf'' \<mapsto> ''%PDF new'', ''notes.txt'' \<mapsto> ''text''],
              table = Some [s3_bucket_base_url @ ''/old.pdf'' \<mapsto> ''%PDF old'',
                            s3_bucket_base_url @ ''/new.pdf'' \<mapsto> ''%PDF new'']\<rparr>"
  have order: "set (completion_order example_upload_world ?files) = set ?files"
    by (simp add: example_upload_world_def)
  have run: "main example_upload_world s3_bucket_base_url ?files ?s = Inr ?s'"
    using example_url_is_pdf example_url_is_not_pdf
    by (simp add: main_def save_files_to_s3_def example_upload_world_def
        load_files_from_s3_to_knowledge_base_def aload_def s3_file_urls_def upsert_documents_def
        length_s3_bucket_base_url)
  from upload_stores_and_indexes_uploaded_files [OF run order]
  have out: "\<forall>f. f \<notin> fst ` set ?files \<longrightarrow> bucket ?s' f = bucket ?s f"
    and inn: "\<forall>f\<in>fst ` set ?files. \<exists>c. (f, c) \<in> set ?files \<and> bucket ?s' f = Some c"
    by blast+
  from out have old: "bucket ?s' ''old.pdf'' = Some ''%PDF old''"
    by simp
  from inn have new: "bucket ?s' ''new.pdf'' = Some ''%PDF new''"
      and text_file: "bucket ?s' ''notes.txt'' = Some ''text''"
    by simp_all
  have rows: "\<exists>t'. table ?s' = Some t'
               \<and> t' (s3_bucket_base_url @ ''/old.pdf'') = Some ''%PDF old''
               \<and> t' (s3_bucket_base_url @ ''/new.pdf'') = Some ''%PDF new''
               \<and> t' (s3_bucket_base_url @ ''/notes.txt'') = None"
    by (simp add: s3_bucket_base_url_def)
  show ?thesis
    by (intro conjI order exI [of _ ?s'] run new text_file old rows)
qed
end
